theory Spec2Isabelle
  imports Main "HOL-Library.Char_ord" "HOL-Library.List_Lexorder"
begin

section \<open>Data model\<close>

text \<open>
  The shader graph that \<^verbatim>\<open>OslNodesShaderGenerator::generate\<close> walks. A
  \<^verbatim>\<open>ShaderOutput*\<close> is read through \<^verbatim>\<open>getNode()\<close>, \<^verbatim>\<open>getName()\<close> and
  \<^verbatim>\<open>getType()\<close>; the node it belongs to is either the graph itself (the test
  \<^verbatim>\<open>connection->getNode() == &graph\<close>) or a node inside the graph, and in both cases only
  its name is read. A \<^verbatim>\<open>TypeDesc\<close> is represented by its name.
\<close>

datatype node_ref = GraphRef string | NodeRef string

fun ref_getName :: "node_ref \<Rightarrow> string" where
  "ref_getName (GraphRef n) = n"
| "ref_getName (NodeRef n) = n"

fun is_graph :: "node_ref \<Rightarrow> bool" where
  "is_graph (GraphRef n) = True"
| "is_graph (NodeRef n) = False"

record shader_output =
  output_node :: node_ref
  output_name :: string
  output_type :: string

record shader_input =
  input_name :: string
  input_type :: string
  input_value :: "string option"
  input_connection :: "shader_output option"
  input_isDefault :: bool

record shader_node =
  node_name :: string
  node_inputs :: "shader_input list"
  node_output0 :: shader_output
  node_nodeDefName :: string

text \<open>
  A graph-level socket as \<^verbatim>\<open>createShader\<close> reads it: its connections (the ports
  inside the graph it is wired to, as node name and port name) and itself.
\<close>

record socket =
  socket_name :: string
  socket_type :: string
  socket_connections :: "(string \<times> string) list"

record shader_graph =
  graph_name :: string
  graph_nodes :: "shader_node list"
  graph_inputSockets :: "socket list"
  graph_outputSockets :: "socket list"
  graph_isEditable :: "socket \<Rightarrow> bool"

text \<open>
  Modelled from the spec: the document classes (\<^verbatim>\<open>Document\<close>, \<^verbatim>\<open>NodeDef\<close>,
  \<^verbatim>\<open>Implementation\<close>) are not among the files. A document is a catalog of node
  definitions plus node instances: its children in order, each under its name. A node
  definition is a catalog entry with a per-target map to what implements it, and an
  implementation is an entry-point function name and a source file path.
  \<^verbatim>\<open>getImplementation\<close> returns an \<^verbatim>\<open>InterfaceElementPtr\<close>, which is null when
  the definition has nothing for the target (the driver tests it with
  \<^verbatim>\<open>!nodeImpl\<close>), and which \<^verbatim>\<open>asA<Implementation>()\<close> casts to an implementation
  or to null (the generator tests the cast with \<^verbatim>\<open>!impl\<close>).
\<close>

record implementation =
  impl_function :: string
  impl_file :: string

datatype interface_element = ImplementationElement implementation | NodeGraphElement string

record nodedef =
  nodedef_name :: string
  nodedef_impls :: "(string \<times> interface_element) list"

datatype child = NodeDefChild nodedef | NodeChild string string | OtherChild string

type_synonym document = "child list"

fun child_name :: "child \<Rightarrow> string" where
  "child_name (NodeDefChild nd) = nodedef_name nd"
| "child_name (NodeChild n d) = n"
| "child_name (OtherChild n) = n"

fun getNodeDefs :: "document \<Rightarrow> nodedef list" where
  "getNodeDefs [] = []"
| "getNodeDefs (NodeDefChild nd # cs) = nd # getNodeDefs cs"
| "getNodeDefs (c # cs) = getNodeDefs cs"

fun getNodeDef :: "document \<Rightarrow> string \<Rightarrow> nodedef option" where
  "getNodeDef [] n = None"
| "getNodeDef (NodeDefChild nd # cs) n = (if nodedef_name nd = n then Some nd else getNodeDef cs n)"
| "getNodeDef (c # cs) n = getNodeDef cs n"

definition getImplementation :: "nodedef \<Rightarrow> string \<Rightarrow> interface_element option" where
  "getImplementation nodeDef target = map_of (nodedef_impls nodeDef) target"

fun asA_Implementation :: "interface_element \<Rightarrow> implementation option" where
  "asA_Implementation (ImplementationElement impl) = Some impl"
| "asA_Implementation (NodeGraphElement n) = None"

record element =
  element_name :: string
  element_document :: document

text \<open>
  The shader under construction: the pixel stage's text as the list of the lines emitted
  so far (\<^verbatim>\<open>emitLine(str, stage, false)\<close> appends one line and no semicolon), the
  stage's three variable blocks, and the attribute map.
\<close>

record variable_block =
  block_name :: string
  block_variables :: "socket list"

record shader =
  shader_name :: string
  shader_graph :: shader_graph
  stage_code :: "string list"
  stage_uniforms :: variable_block
  stage_inputs :: variable_block
  stage_outputs :: variable_block
  shader_attributes :: "(string \<times> string) list"

text \<open>
  What the generator calls and this repository's files do not define, as parameters: the
  syntax object (\<^verbatim>\<open>_syntax\<close>), whose value printing depends on the process-wide
  float format (\<^verbatim>\<open>Value::FloatFormatFixed\<close> and its siblings); the generation context
  (its options and \<^verbatim>\<open>resolveSourceFile\<close>); and the inherited generator methods
  \<^verbatim>\<open>ShaderGraph::create\<close> and \<^verbatim>\<open>createVariables\<close>, the latter as the variables it
  puts into the uniform, input and output blocks.
\<close>

datatype float_format = FloatFormatDefault | FloatFormatFixed | FloatFormatScientific

record osl_syntax =
  makeValidName :: "string \<Rightarrow> string"
  getValue :: "float_format \<Rightarrow> shader_input \<Rightarrow> string"
  getTypeName :: "string \<Rightarrow> string"

record gen_context =
  oslNodesConnectCiWrapper :: bool
  resolveSourceFile :: "string \<Rightarrow> string \<Rightarrow> string"

record generator =
  gen_syntax :: osl_syntax
  ShaderGraph_create :: "string \<Rightarrow> element \<Rightarrow> gen_context \<Rightarrow> shader_graph"
  createVariables :: "shader_graph \<Rightarrow> gen_context \<Rightarrow> socket list \<times> socket list \<times> socket list"

text \<open>
  The ways a call stops without returning: a null pointer is dereferenced, or the
  pointer \<^verbatim>\<open>lastOutput\<close>, declared without an initialiser, is read before any
  assignment.
\<close>

datatype fault = NullDereference | UninitializedRead

section \<open>InterfacePublisher: createShader\<close>

text \<open>
  Modelled from the spec: \<^verbatim>\<open>VariableBlock::add\<close> is not among the files; the block
  "receives" the socket, at its end.
\<close>

definition block_add :: "variable_block \<Rightarrow> socket \<Rightarrow> variable_block" where
  "block_add b p = b\<lparr>block_variables := block_variables b @ [p]\<rparr>"

definition UNIFORMS :: string where "UNIFORMS = ''u''"
definition INPUTS :: string where "INPUTS = ''i''"
definition OUTPUTS :: string where "OUTPUTS = ''o''"

text \<open>The two loops of \<^verbatim>\<open>createShader\<close>, the same text in both generator files.\<close>

fun add_uniforms :: "shader_graph \<Rightarrow> variable_block \<Rightarrow> socket list \<Rightarrow> variable_block" where
  "add_uniforms graph uniforms [] = uniforms"
| "add_uniforms graph uniforms (inputSocket # rest) =
     (if length (socket_connections inputSocket) \<noteq> 0 \<and> graph_isEditable graph inputSocket
      then add_uniforms graph (block_add uniforms inputSocket) rest
      else add_uniforms graph uniforms rest)"

fun add_outputs :: "variable_block \<Rightarrow> socket list \<Rightarrow> variable_block" where
  "add_outputs outputs [] = outputs"
| "add_outputs outputs (outputSocket # rest) = add_outputs (block_add outputs outputSocket) rest"

definition createShader :: "generator \<Rightarrow> string \<Rightarrow> element \<Rightarrow> gen_context \<Rightarrow> shader" where
  "createShader gen name elem context =
     (let graph = ShaderGraph_create gen name elem context;
          vars = createVariables gen graph context;
          uniforms0 = \<lparr>block_name = UNIFORMS, block_variables = fst vars\<rparr>;
          inputs0 = \<lparr>block_name = INPUTS, block_variables = fst (snd vars)\<rparr>;
          outputs0 = \<lparr>block_name = OUTPUTS, block_variables = snd (snd vars)\<rparr>
      in \<lparr>shader_name = name,
          shader_graph = graph,
          stage_code = [],
          stage_uniforms = add_uniforms graph uniforms0 (graph_inputSockets graph),
          stage_inputs = inputs0,
          stage_outputs = add_outputs outputs0 (graph_outputSockets graph),
          shader_attributes = []\<rparr>)"

section \<open>GraphEmitter: generate, target genoslnodes\<close>

definition paramString :: "string \<Rightarrow> string \<Rightarrow> string \<Rightarrow> string" where
  "paramString paramType paramName paramValue =
     ''param '' @ paramType @ '' '' @ paramName @ '' '' @ paramValue @ '' ;''"

definition connectString :: "string \<Rightarrow> string \<Rightarrow> string \<Rightarrow> string \<Rightarrow> string" where
  "connectString fromNode fromName toNode toName =
     ''connect '' @ fromNode @ ''.'' @ fromName @ '' '' @ toNode @ ''.'' @ toName @ '' ;''"

text \<open>
  The locals of \<^verbatim>\<open>generate\<close> that its loops update. \<^verbatim>\<open>osoPaths\<close> is a
  \<^verbatim>\<open>std::set<std::string>\<close>: its elements in increasing order, each once.
\<close>

record gen_state =
  gs_code :: "string list"
  gs_connections :: "string list"
  gs_lastNodeName :: string
  gs_lastOutput :: "shader_output option"
  gs_osoPaths :: "string list"

fun set_insert :: "string \<Rightarrow> string list \<Rightarrow> string list" where
  "set_insert x [] = [x]"
| "set_insert x (y # ys) =
     (if x = y then y # ys else if x < y then x # y # ys else y # set_insert x ys)"

definition emitLine :: "string \<Rightarrow> gen_state \<Rightarrow> gen_state" where
  "emitLine str st = st\<lparr>gs_code := gs_code st @ [str]\<rparr>"

text \<open>
  The body of the loop over a node's inputs (target genoslnodes). The inner \<open>case\<close> is
  the test \<^verbatim>\<open>!connection || connection->getNode() == &graph\<close>: it yields the
  connection only when there is one and it comes from a node inside the graph.
\<close>

definition visit_input :: "osl_syntax \<Rightarrow> float_format \<Rightarrow> string \<Rightarrow> gen_state \<Rightarrow> shader_input \<Rightarrow> gen_state" where
  "visit_input syn fmt name st input =
     (if input_isDefault input then st
      else
        let inputName = makeValidName syn (input_name input) in
        case (case input_connection input of
                None \<Rightarrow> None
              | Some connection \<Rightarrow> if is_graph (output_node connection) then None else Some connection) of
          None \<Rightarrow>
            if input_name input = ''backsurfaceshader'' \<or> input_name input = ''displacementshader''
            then st
            else
              let v = getValue syn fmt input in
              if v = ''null_closure()'' then st
              else emitLine (paramString (getTypeName syn (input_type input)) inputName v) st
        | Some connection \<Rightarrow>
            let connName = makeValidName syn (output_name connection);
                connect = connectString (ref_getName (output_node connection)) connName name inputName
            in st\<lparr>gs_connections := gs_connections st @ [connect]\<rparr>)"

text \<open>
  The loop over the graph's nodes. \<^verbatim>\<open>return nullptr\<close> is \<open>Inr None\<close>; calling
  a method through the null result of \<^verbatim>\<open>getNodeDef\<close> or of
  \<^verbatim>\<open>getImplementation\<close> is a fault.
\<close>

fun visit_nodes :: "osl_syntax \<Rightarrow> float_format \<Rightarrow> document \<Rightarrow> gen_state \<Rightarrow> shader_node list \<Rightarrow> fault + gen_state option" where
  "visit_nodes syn fmt doc st [] = Inr (Some st)"
| "visit_nodes syn fmt doc st (node # rest) =
     (let name = node_name node;
          st1 = foldl (visit_input syn fmt name) st (node_inputs node);
          st2 = st1\<lparr>gs_lastOutput := Some (node_output0 node)\<rparr>
      in case getNodeDef doc (node_nodeDefName node) of
           None \<Rightarrow> Inl NullDereference
         | Some nodeDef \<Rightarrow>
             (case getImplementation nodeDef ''genoslnodes'' of
                None \<Rightarrow> Inl NullDereference
              | Some e \<Rightarrow>
                  (case asA_Implementation e of
                     None \<Rightarrow> Inr None
                   | Some impl \<Rightarrow>
                       let osoName = impl_function impl;
                           osoPath = impl_file impl;
                           st3 = st2\<lparr>gs_osoPaths := set_insert osoPath (gs_osoPaths st2)\<rparr>;
                           st4 = emitLine (''shader '' @ osoName @ '' '' @ name @ '' ;'') st3;
                           st5 = st4\<lparr>gs_lastNodeName := name\<rparr>
                       in visit_nodes syn fmt doc st5 rest)))"

text \<open>The loop that builds the path string from the set, with its separator.\<close>

fun join_osoPaths :: "gen_context \<Rightarrow> string \<Rightarrow> string \<Rightarrow> string list \<Rightarrow> string" where
  "join_osoPaths context osoPathStr separator [] = osoPathStr"
| "join_osoPaths context osoPathStr separator (osoPath # rest) =
     (let fullOsoPathStr = resolveSourceFile context osoPath ''''
      in join_osoPaths context (osoPathStr @ separator @ fullOsoPathStr) '','' rest)"

text \<open>
  The block under \<^verbatim>\<open>if (context.getOptions().oslNodesConnectCiWrapper)\<close>: it reads
  \<^verbatim>\<open>lastNodeName\<close> (a string, empty until assigned) and dereferences
  \<^verbatim>\<open>lastOutput\<close>.
\<close>

definition connectCiWrapper :: "gen_context \<Rightarrow> gen_state \<Rightarrow> fault + gen_state" where
  "connectCiWrapper context st =
     (if oslNodesConnectCiWrapper context
      then (case gs_lastOutput st of
              None \<Rightarrow> Inl UninitializedRead
            | Some lastOutput \<Rightarrow>
                Inr (emitLine (connectString (gs_lastNodeName st) (output_name lastOutput)
                                 ''root'' (output_type lastOutput @ ''_input''))
                       (emitLine ''shader setCi root ;'' st)))
      else Inr st)"

text \<open>
  \<^verbatim>\<open>generate\<close> of the genoslnodes file. It takes the process-wide float format and
  returns it with the result: this variant never sets it.
\<close>

definition generate_genoslnodes ::
  "generator \<Rightarrow> string \<Rightarrow> element \<Rightarrow> gen_context \<Rightarrow> float_format \<Rightarrow> (fault + shader option) \<times> float_format" where
  "generate_genoslnodes gen name elem context fmt =
     (let shader = createShader gen name elem context;
          graph = shader_graph shader;
          document = element_document elem;
          st0 = \<lparr>gs_code = stage_code shader, gs_connections = [], gs_lastNodeName = [],
                 gs_lastOutput = None, gs_osoPaths = []\<rparr>
      in case visit_nodes (gen_syntax gen) fmt document st0 (graph_nodes graph) of
           Inl f \<Rightarrow> (Inl f, fmt)
         | Inr None \<Rightarrow> (Inr None, fmt)
         | Inr (Some st1) \<Rightarrow>
             (let st2 = foldl (\<lambda>s connect. emitLine connect s) st1 (gs_connections st1)
              in case connectCiWrapper context st2 of
                   Inl f \<Rightarrow> (Inl f, fmt)
                 | Inr st3 \<Rightarrow>
                     (let osoPathStr = join_osoPaths context [] [] (gs_osoPaths st3)
                      in (Inr (Some (shader\<lparr>stage_code := gs_code st3,
                                             shader_attributes :=
                                               (''osoPath'', osoPathStr) # shader_attributes shader\<rparr>)),
                          fmt))))"

section \<open>GraphEmitter: generate, target genosl\<close>

text \<open>
  The other generator file. Its loop over the inputs calls \<^verbatim>\<open>connection->getNode()\<close>
  with no test of \<^verbatim>\<open>connection\<close>, so the loop can fault; it keeps the input's name
  as it is, and it looks no implementation up. Of the locals only the stage's text and
  \<^verbatim>\<open>connections\<close> exist here; the other fields of the state stay as they start.
\<close>

definition visit_input_genosl ::
  "osl_syntax \<Rightarrow> float_format \<Rightarrow> string \<Rightarrow> gen_state \<Rightarrow> shader_input \<Rightarrow> fault + gen_state" where
  "visit_input_genosl syn fmt name st input =
     (let inputName = input_name input;
          inputType = input_type input
      in if input_value input = None then Inr st
         else if input_isDefault input then Inr st
         else
           case input_connection input of
             None \<Rightarrow> Inl NullDereference
           | Some connection \<Rightarrow>
               if is_graph (output_node connection)
               then
                 (if input_name input = ''backsurfaceshader'' \<or> input_name input = ''displacementshader''
                  then Inr st
                  else Inr (emitLine (''param '' @ getTypeName syn inputType @ '' '' @ input_name input
                                        @ '' '' @ getValue syn fmt input @ '' ;'') st))
               else
                 (let connect = ''connect '' @ ref_getName (output_node connection) @ ''.''
                                  @ output_name connection @ '' '' @ name @ ''.'' @ inputName @ '' ;''
                  in Inr (st\<lparr>gs_connections := gs_connections st @ [connect]\<rparr>)))"

fun visit_inputs_genosl ::
  "osl_syntax \<Rightarrow> float_format \<Rightarrow> string \<Rightarrow> gen_state \<Rightarrow> shader_input list \<Rightarrow> fault + gen_state" where
  "visit_inputs_genosl syn fmt name st [] = Inr st"
| "visit_inputs_genosl syn fmt name st (input # rest) =
     (case visit_input_genosl syn fmt name st input of
        Inl f \<Rightarrow> Inl f
      | Inr st1 \<Rightarrow> visit_inputs_genosl syn fmt name st1 rest)"

definition strip_ND :: "string \<Rightarrow> string" where
  "strip_ND nodeDefName =
     (if length nodeDefName > 3 \<and> take 3 nodeDefName = ''ND_'' then drop 3 nodeDefName
      else nodeDefName)"

fun visit_nodes_genosl ::
  "osl_syntax \<Rightarrow> float_format \<Rightarrow> gen_state \<Rightarrow> shader_node list \<Rightarrow> fault + gen_state" where
  "visit_nodes_genosl syn fmt st [] = Inr st"
| "visit_nodes_genosl syn fmt st (node # rest) =
     (let name = node_name node in
      case visit_inputs_genosl syn fmt name st (node_inputs node) of
        Inl f \<Rightarrow> Inl f
      | Inr st1 \<Rightarrow>
          (let nodeDefName = strip_ND (node_nodeDefName node)
           in visit_nodes_genosl syn fmt
                (emitLine (''shader '' @ nodeDefName @ '' '' @ name @ '' ;'') st1) rest))"

text \<open>
  \<^verbatim>\<open>ScopedFloatFormatting fmt(Value::FloatFormatFixed)\<close> sets the process-wide format
  for the rest of the call; its destructor puts the former one back when the call
  returns. A fault ends the call with the format still set.
\<close>

definition generate_genosl ::
  "generator \<Rightarrow> string \<Rightarrow> element \<Rightarrow> gen_context \<Rightarrow> float_format \<Rightarrow> (fault + shader) \<times> float_format" where
  "generate_genosl gen name elem context fmt0 =
     (let shader = createShader gen name elem context;
          fmt = FloatFormatFixed;
          graph = shader_graph shader;
          st0 = \<lparr>gs_code = stage_code shader, gs_connections = [], gs_lastNodeName = [],
                 gs_lastOutput = None, gs_osoPaths = []\<rparr>
      in case visit_nodes_genosl (gen_syntax gen) fmt st0 (graph_nodes graph) of
           Inl f \<Rightarrow> (Inl f, fmt)
         | Inr st1 \<Rightarrow>
             (let st2 = foldl (\<lambda>s connect. emitLine connect s) st1 (gs_connections st1)
              in (Inr (shader\<lparr>stage_code := gs_code st2\<rparr>), fmt0)))"

section \<open>BatchCompiler: the loop of main\<close>

text \<open>
  Modelled from the spec: \<^verbatim>\<open>Document::addNodeInstance\<close> and
  \<^verbatim>\<open>Element::removeChild\<close> are not among the files. Names are unique within the
  document, so adding a child under a name in use throws; the instance is added last, under
  the name given, and removal takes the child of that name out.
\<close>

definition addNodeInstance :: "document \<Rightarrow> nodedef \<Rightarrow> string \<Rightarrow> string + document" where
  "addNodeInstance doc nodeDef name =
     (if name \<in> set (map child_name doc) then Inl (''Child name is not unique: '' @ name)
      else Inr (doc @ [NodeChild name (nodedef_name nodeDef)]))"

definition removeChild :: "document \<Rightarrow> string \<Rightarrow> document" where
  "removeChild doc name = filter (\<lambda>c. child_name c \<noteq> name) doc"

text \<open>
  What the \<^verbatim>\<open>try\<close> block does (generate, write the file, \<^verbatim>\<open>compileOSL\<close>) is a
  parameter of the driver: it completes, or it throws an
  \<^verbatim>\<open>ExceptionRenderError\<close> (with \<^verbatim>\<open>what()\<close> and \<^verbatim>\<open>errorLog()\<close>) or another
  \<^verbatim>\<open>Exception\<close> (with \<^verbatim>\<open>what()\<close>).
\<close>

datatype exn = ExceptionRenderError string "string list" | Exception string

datatype outcome = Completed | Throws exn

record driver =
  getTarget :: string
  argPrefix :: string
  generate_and_compile :: "document \<Rightarrow> string \<Rightarrow> outcome"

record main_state =
  librariesDoc :: document
  logFile :: "string list"
  hasFailed :: bool

definition nodeName_of :: "driver \<Rightarrow> nodedef \<Rightarrow> string" where
  "nodeName_of drv nodeDef =
     (let nodeName = nodedef_name nodeDef;
          nodeName1 = (if length nodeName > 3 \<and> take 3 nodeName = ''ND_'' then drop 3 nodeName
                       else nodeName)
      in if argPrefix drv \<noteq> [] then argPrefix drv @ ''_'' @ nodeName1 else nodeName1)"

definition catch_handlers :: "string \<Rightarrow> main_state \<Rightarrow> outcome \<Rightarrow> main_state" where
  "catch_handlers nodeName st r =
     (case r of
        Completed \<Rightarrow> st
      | Throws (ExceptionRenderError what errorLog) \<Rightarrow>
          st\<lparr>logFile := logFile st
                @ [''Encountered a codegen/compilation related exception for the following node: '' @ nodeName,
                   what]
                @ errorLog,
             hasFailed := True\<rparr>
      | Throws (Exception what) \<Rightarrow>
          st\<lparr>logFile := logFile st
                @ [''Failed to codegen/compile the following node to OSL: '' @ nodeName, what],
             hasFailed := True\<rparr>)"

text \<open>
  One iteration of the loop over the node definitions. \<^verbatim>\<open>addNodeInstance\<close> is
  called outside the \<^verbatim>\<open>try\<close> block: what it throws leaves \<^verbatim>\<open>main\<close>
  (\<open>Inl\<close>).
\<close>

definition main_iteration :: "driver \<Rightarrow> main_state \<Rightarrow> nodedef \<Rightarrow> string + main_state" where
  "main_iteration drv st nodeDef =
     (let nodeName = nodeName_of drv nodeDef in
      case getImplementation nodeDef (getTarget drv) of
        None \<Rightarrow>
          Inr (st\<lparr>logFile := logFile st
                 @ [''The following `NodeDef` does not provide a valid OSL implementation, and will be skipped: ''
                    @ nodeName]\<rparr>)
      | Some nodeImpl \<Rightarrow>
          (case addNodeInstance (librariesDoc st) nodeDef nodeName of
             Inl what \<Rightarrow> Inl what
           | Inr doc1 \<Rightarrow>
               (let st1 = st\<lparr>librariesDoc := doc1\<rparr>;
                    st2 = catch_handlers nodeName st1 (generate_and_compile drv doc1 nodeName)
                in Inr (st2\<lparr>librariesDoc := removeChild (librariesDoc st2) nodeName\<rparr>))))"

fun main_loop :: "driver \<Rightarrow> main_state \<Rightarrow> nodedef list \<Rightarrow> string + main_state" where
  "main_loop drv st [] = Inr st"
| "main_loop drv st (nodeDef # rest) =
     (case main_iteration drv st nodeDef of
        Inl what \<Rightarrow> Inl what
      | Inr st1 \<Rightarrow> main_loop drv st1 rest)"

text \<open>
  \<^verbatim>\<open>main\<close> from \<^verbatim>\<open>bool hasFailed = false\<close> on, the library document loaded: the
  list of definitions is taken once, before the first iteration. An exception that leaves
  \<^verbatim>\<open>main\<close> ends the process with no return value.
\<close>

datatype exit_status = Return int | Terminate string

definition main_run :: "driver \<Rightarrow> document \<Rightarrow> string + main_state" where
  "main_run drv doc =
     main_loop drv \<lparr>librariesDoc = doc, logFile = [], hasFailed = False\<rparr> (getNodeDefs doc)"

definition main_return :: "string + main_state \<Rightarrow> exit_status" where
  "main_return r =
     (case r of
        Inl what \<Rightarrow> Terminate what
      | Inr st \<Rightarrow> if hasFailed st then Return 1 else Return 0)"

definition main_exit :: "driver \<Rightarrow> document \<Rightarrow> exit_status" where
  "main_exit drv doc = main_return (main_run drv doc)"

section \<open>What the loops emit, input by input and node by node\<close>

text \<open>
  Auxiliary definitions, for stating the properties: the lines one input and one node
  contribute to the text and to the deferred connections. The lemmas of the next section
  prove that the loops above emit exactly these. First the genoslnodes generator: the test
  \<^verbatim>\<open>!connection || connection->getNode() == &graph\<close>, the two names its literal path
  skips, and the param and connect lines of one input.
\<close>

definition unconnected :: "shader_input \<Rightarrow> bool" where
  "unconnected i = (case input_connection i of None \<Rightarrow> True | Some c \<Rightarrow> is_graph (output_node c))"

definition excluded_name :: "string \<Rightarrow> bool" where
  "excluded_name n = (n = ''backsurfaceshader'' \<or> n = ''displacementshader'')"

definition input_params :: "osl_syntax \<Rightarrow> float_format \<Rightarrow> shader_input \<Rightarrow> string list" where
  "input_params syn fmt i =
     (if \<not> input_isDefault i \<and> unconnected i \<and> \<not> excluded_name (input_name i)
         \<and> getValue syn fmt i \<noteq> ''null_closure()''
      then [paramString (getTypeName syn (input_type i)) (makeValidName syn (input_name i)) (getValue syn fmt i)]
      else [])"

definition input_connects :: "osl_syntax \<Rightarrow> string \<Rightarrow> shader_input \<Rightarrow> string list" where
  "input_connects syn name i =
     (if input_isDefault i then []
      else case input_connection i of
             None \<Rightarrow> []
           | Some c \<Rightarrow>
               if is_graph (output_node c) then []
               else [connectString (ref_getName (output_node c)) (makeValidName syn (output_name c))
                       name (makeValidName syn (input_name i))])"

text \<open>
  What the three lookups of the node loop yield together for a node, and the lines, the
  file and the state a node with an implementation contributes.
\<close>

definition node_implementation :: "document \<Rightarrow> string \<Rightarrow> shader_node \<Rightarrow> implementation option" where
  "node_implementation doc target node =
     (case getNodeDef doc (node_nodeDefName node) of
        None \<Rightarrow> None
      | Some nodeDef \<Rightarrow>
          (case getImplementation nodeDef target of
             None \<Rightarrow> None
           | Some e \<Rightarrow> asA_Implementation e))"

definition shader_line :: "document \<Rightarrow> shader_node \<Rightarrow> string list" where
  "shader_line doc n =
     (case node_implementation doc ''genoslnodes'' n of
        None \<Rightarrow> []
      | Some impl \<Rightarrow> [''shader '' @ impl_function impl @ '' '' @ node_name n @ '' ;''])"

definition node_files :: "document \<Rightarrow> shader_node \<Rightarrow> string list" where
  "node_files doc n =
     (case node_implementation doc ''genoslnodes'' n of None \<Rightarrow> [] | Some impl \<Rightarrow> [impl_file impl])"

definition node_params :: "osl_syntax \<Rightarrow> float_format \<Rightarrow> shader_node \<Rightarrow> string list" where
  "node_params syn fmt n = concat (map (input_params syn fmt) (node_inputs n))"

definition node_connects :: "osl_syntax \<Rightarrow> shader_node \<Rightarrow> string list" where
  "node_connects syn n = concat (map (input_connects syn (node_name n)) (node_inputs n))"

definition node_declarations :: "osl_syntax \<Rightarrow> float_format \<Rightarrow> document \<Rightarrow> shader_node \<Rightarrow> string list" where
  "node_declarations syn fmt doc n = node_params syn fmt n @ shader_line doc n"

definition after_node :: "osl_syntax \<Rightarrow> float_format \<Rightarrow> gen_state \<Rightarrow> shader_node \<Rightarrow> implementation \<Rightarrow> gen_state" where
  "after_node syn fmt st n impl =
     st\<lparr>gs_code := gs_code st @ node_params syn fmt n
                 @ [''shader '' @ impl_function impl @ '' '' @ node_name n @ '' ;''],
        gs_connections := gs_connections st @ node_connects syn n,
        gs_lastNodeName := node_name n,
        gs_lastOutput := Some (node_output0 n),
        gs_osoPaths := set_insert (impl_file impl) (gs_osoPaths st)\<rparr>"

definition init_state :: gen_state where
  "init_state = \<lparr>gs_code = [], gs_connections = [], gs_lastNodeName = [],
                  gs_lastOutput = None, gs_osoPaths = []\<rparr>"

text \<open>
  The two lines of the wrapper block, for a graph whose last node is known, and the set of
  files the nodes of a graph require.
\<close>

definition sink_lines :: "gen_context \<Rightarrow> shader_node list \<Rightarrow> string list" where
  "sink_lines context ns =
     (if oslNodesConnectCiWrapper context \<and> ns \<noteq> []
      then [''shader setCi root ;'',
            connectString (node_name (last ns)) (output_name (node_output0 (last ns)))
              ''root'' (output_type (node_output0 (last ns)) @ ''_input'')]
      else [])"

definition required_files :: "document \<Rightarrow> shader_node list \<Rightarrow> string set" where
  "required_files doc ns = set (concat (map (node_files doc) ns))"

definition comma_joined :: "string list \<Rightarrow> string" where
  "comma_joined xs = (case xs of [] \<Rightarrow> [] | x # rest \<Rightarrow> x @ concat (map (\<lambda>y. '','' @ y) rest))"

text \<open>
  The same for the genosl generator; an input faults there when it has a value, is not
  marked default and has no connection.
\<close>

definition input_params_genosl :: "osl_syntax \<Rightarrow> shader_input \<Rightarrow> string list" where
  "input_params_genosl syn i =
     (if input_value i \<noteq> None \<and> \<not> input_isDefault i
         \<and> (case input_connection i of None \<Rightarrow> False | Some c \<Rightarrow> is_graph (output_node c))
         \<and> \<not> excluded_name (input_name i)
      then [paramString (getTypeName syn (input_type i)) (input_name i) (getValue syn FloatFormatFixed i)]
      else [])"

definition input_connects_genosl :: "string \<Rightarrow> shader_input \<Rightarrow> string list" where
  "input_connects_genosl name i =
     (if input_value i = None \<or> input_isDefault i then []
      else case input_connection i of
             None \<Rightarrow> []
           | Some c \<Rightarrow>
               if is_graph (output_node c) then []
               else [connectString (ref_getName (output_node c)) (output_name c) name (input_name i)])"

definition input_faults_genosl :: "shader_input \<Rightarrow> bool" where
  "input_faults_genosl i =
     (input_value i \<noteq> None \<and> \<not> input_isDefault i \<and> input_connection i = None)"

definition node_declarations_genosl :: "osl_syntax \<Rightarrow> shader_node \<Rightarrow> string list" where
  "node_declarations_genosl syn n =
     concat (map (input_params_genosl syn) (node_inputs n))
     @ [''shader '' @ strip_ND (node_nodeDefName n) @ '' '' @ node_name n @ '' ;'']"

definition node_connects_genosl :: "shader_node \<Rightarrow> string list" where
  "node_connects_genosl n = concat (map (input_connects_genosl (node_name n)) (node_inputs n))"

text \<open>
  Reading the text back: a connect statement and a declaration (a param or a shader
  statement) are told by the word the line starts with. A text has the declarations
  \<open>ds\<close> before its connect statements when it starts with them and every connect
  statement comes after the last of them; it has no declaration after a connect statement
  when every declaration in it comes before every connect statement.
\<close>

definition is_connect :: "string \<Rightarrow> bool" where
  "is_connect l = (take 8 l = ''connect '')"

definition is_declaration :: "string \<Rightarrow> bool" where
  "is_declaration l = (take 6 l = ''param '' \<or> take 7 l = ''shader '')"

definition declarations_precede_connects :: "string list \<Rightarrow> string list \<Rightarrow> bool" where
  "declarations_precede_connects ds ls =
     (take (length ds) ls = ds \<and> (\<forall>i<length ls. is_connect (ls ! i) \<longrightarrow> length ds \<le> i))"

definition connects_after_declarations :: "string list \<Rightarrow> bool" where
  "connects_after_declarations ls =
     (\<forall>i j. i < length ls \<and> j < length ls \<and> is_connect (ls ! i) \<and> is_declaration (ls ! j) \<longrightarrow> j < i)"

text \<open>
  For the driver: a definition is eligible when it has an implementation for the target;
  its instance cannot be added when the name is in use in the document; the outcome of its
  \<^verbatim>\<open>try\<close> block is that of the parameter on the document with the instance added;
  and the lines an iteration appends to the log.
\<close>

definition eligible :: "driver \<Rightarrow> nodedef \<Rightarrow> bool" where
  "eligible drv nd = (getImplementation nd (getTarget drv) \<noteq> None)"

definition name_in_use :: "driver \<Rightarrow> document \<Rightarrow> nodedef \<Rightarrow> bool" where
  "name_in_use drv doc nd = (nodeName_of drv nd \<in> set (map child_name doc))"

definition try_outcome :: "driver \<Rightarrow> document \<Rightarrow> nodedef \<Rightarrow> outcome" where
  "try_outcome drv doc nd =
     generate_and_compile drv (doc @ [NodeChild (nodeName_of drv nd) (nodedef_name nd)]) (nodeName_of drv nd)"

definition compiles_cleanly :: "driver \<Rightarrow> document \<Rightarrow> nodedef \<Rightarrow> bool" where
  "compiles_cleanly drv doc nd = (\<not> name_in_use drv doc nd \<and> try_outcome drv doc nd = Completed)"

definition fails :: "driver \<Rightarrow> document \<Rightarrow> nodedef \<Rightarrow> bool" where
  "fails drv doc nd = (eligible drv nd \<and> try_outcome drv doc nd \<noteq> Completed)"

definition skip_notice :: "driver \<Rightarrow> nodedef \<Rightarrow> string" where
  "skip_notice drv nd =
     ''The following `NodeDef` does not provide a valid OSL implementation, and will be skipped: ''
     @ nodeName_of drv nd"

definition log_lines :: "driver \<Rightarrow> document \<Rightarrow> nodedef \<Rightarrow> string list" where
  "log_lines drv doc nd =
     (if \<not> eligible drv nd then [skip_notice drv nd]
      else case try_outcome drv doc nd of
             Completed \<Rightarrow> []
           | Throws (ExceptionRenderError what errorLog) \<Rightarrow>
               [''Encountered a codegen/compilation related exception for the following node: ''
                  @ nodeName_of drv nd, what] @ errorLog
           | Throws (Exception what) \<Rightarrow>
               [''Failed to codegen/compile the following node to OSL: '' @ nodeName_of drv nd, what])"


section \<open>A concrete network and catalog\<close>

text \<open>
  A syntax that renames reserved words and prints one value differently outside the fixed
  float format, a catalog of four definitions (two with implementations for both targets,
  one with none, one implemented by a node graph), nodes that use them, and drivers whose
  \<^verbatim>\<open>try\<close> block throws for chosen names.
\<close>

definition ex_syntax :: osl_syntax where
  "ex_syntax =
     \<lparr>makeValidName = (\<lambda>s. if s \<in> set [''in'', ''out'', ''color'', ''normal''] then s @ ''1'' else s),
      getValue = (\<lambda>fmt i. case input_value i of
                             None \<Rightarrow> ''0''
                           | Some v \<Rightarrow> if fmt \<noteq> FloatFormatFixed \<and> v = ''0.000010'' then ''1e-05'' else v),
      getTypeName = (\<lambda>t. t)\<rparr>"

definition ex_nodeA :: shader_node where
  "ex_nodeA =
     \<lparr>node_name = ''A'', node_inputs = [],
      node_output0 = \<lparr>output_node = NodeRef ''A'', output_name = ''out'', output_type = ''color''\<rparr>,
      node_nodeDefName = ''ND_a''\<rparr>"

definition ex_input_in :: shader_input where
  "ex_input_in =
     \<lparr>input_name = ''in'', input_type = ''float'', input_value = Some ''0.000010'',
      input_connection = Some \<lparr>output_node = GraphRef ''g'', output_name = ''in'', output_type = ''float''\<rparr>,
      input_isDefault = False\<rparr>"

definition ex_input_bg :: shader_input where
  "ex_input_bg =
     \<lparr>input_name = ''bg'', input_type = ''color'', input_value = Some ''color(0)'',
      input_connection = Some (node_output0 ex_nodeA), input_isDefault = False\<rparr>"

definition ex_nodeB :: shader_node where
  "ex_nodeB =
     \<lparr>node_name = ''B'',
      node_inputs = [ex_input_bg, ex_input_in],
      node_output0 = \<lparr>output_node = NodeRef ''B'', output_name = ''out'', output_type = ''color''\<rparr>,
      node_nodeDefName = ''ND_b''\<rparr>"

definition ex_nodeC :: shader_node where
  "ex_nodeC =
     \<lparr>node_name = ''C'', node_inputs = [],
      node_output0 = \<lparr>output_node = NodeRef ''C'', output_name = ''out'', output_type = ''float''\<rparr>,
      node_nodeDefName = ''ND_c''\<rparr>"

definition ex_nodeG :: shader_node where
  "ex_nodeG =
     \<lparr>node_name = ''G'', node_inputs = [],
      node_output0 = \<lparr>output_node = NodeRef ''G'', output_name = ''out'', output_type = ''float''\<rparr>,
      node_nodeDefName = ''ND_g''\<rparr>"

definition ex_ndA :: nodedef where
  "ex_ndA =
     \<lparr>nodedef_name = ''ND_a'', nodedef_impls =
        [(''genoslnodes'', ImplementationElement \<lparr>impl_function = ''implA'', impl_file = ''lib/z.osl''\<rparr>),
         (''genosl'', ImplementationElement \<lparr>impl_function = ''mx_a'', impl_file = ''lib/mx_a.osl''\<rparr>)]\<rparr>"

definition ex_ndB :: nodedef where
  "ex_ndB =
     \<lparr>nodedef_name = ''ND_b'', nodedef_impls =
        [(''genoslnodes'', ImplementationElement \<lparr>impl_function = ''implB'', impl_file = ''lib/b.osl''\<rparr>),
         (''genosl'', ImplementationElement \<lparr>impl_function = ''mx_b'', impl_file = ''lib/mx_b.osl''\<rparr>)]\<rparr>"

definition ex_ndC :: nodedef where
  "ex_ndC = \<lparr>nodedef_name = ''ND_c'', nodedef_impls = []\<rparr>"

definition ex_ndG :: nodedef where
  "ex_ndG =
     \<lparr>nodedef_name = ''ND_g'', nodedef_impls = [(''genoslnodes'', NodeGraphElement ''NG_g'')]\<rparr>"

definition ex_doc :: document where
  "ex_doc = [NodeDefChild ex_ndA, NodeDefChild ex_ndB, NodeDefChild ex_ndC, NodeDefChild ex_ndG]"

definition ex_elem :: element where
  "ex_elem = \<lparr>element_name = ''g'', element_document = ex_doc\<rparr>"

definition ex_socket :: "string \<Rightarrow> (string \<times> string) list \<Rightarrow> socket" where
  "ex_socket n cs = \<lparr>socket_name = n, socket_type = ''float'', socket_connections = cs\<rparr>"

definition ex_graph :: "shader_node list \<Rightarrow> shader_graph" where
  "ex_graph ns =
     \<lparr>graph_name = ''g'', graph_nodes = ns,
      graph_inputSockets = [ex_socket ''in'' [(''B'', ''in'')], ex_socket ''unused'' [],
                            ex_socket ''locked'' [(''B'', ''bg'')]],
      graph_outputSockets = [ex_socket ''out'' [], ex_socket ''out2'' [(''B'', ''out'')]],
      graph_isEditable = (\<lambda>s. socket_name s \<noteq> ''locked'')\<rparr>"

definition ex_gen :: "shader_node list \<Rightarrow> generator" where
  "ex_gen ns =
     \<lparr>gen_syntax = ex_syntax,
      ShaderGraph_create = (\<lambda>n e c. ex_graph ns),
      createVariables = (\<lambda>g c. ([], [], []))\<rparr>"

definition ex_context :: "bool \<Rightarrow> gen_context" where
  "ex_context w = \<lparr>oslNodesConnectCiWrapper = w, resolveSourceFile = (\<lambda>p l. ''/mtlx/'' @ p)\<rparr>"

definition ex_nodeA2 :: shader_node where
  "ex_nodeA2 =
     \<lparr>node_name = ''A2'', node_inputs = [],
      node_output0 = \<lparr>output_node = NodeRef ''A2'', output_name = ''out'', output_type = ''color''\<rparr>,
      node_nodeDefName = ''ND_a''\<rparr>"

definition ex_driver :: "string list \<Rightarrow> driver" where
  "ex_driver failing =
     \<lparr>getTarget = ''genosl'', argPrefix = ''mx'',
      generate_and_compile =
        (\<lambda>doc n. if n \<in> set failing
                  then Throws (ExceptionRenderError ''Command return code: 1''
                                 [n @ ''.osl:3: error: Unknown shader''])
                  else Completed)\<rparr>"

definition ex_state :: main_state where
  "ex_state = \<lparr>librariesDoc = ex_doc, logFile = [], hasFailed = False\<rparr>"

definition ex_driver_exception :: driver where
  "ex_driver_exception =
     \<lparr>getTarget = ''genosl'', argPrefix = [],
      generate_and_compile =
        (\<lambda>doc n. if n = ''a'' then Throws (Exception ''Could not find a matching implementation'')
                  else Completed)\<rparr>"

section \<open>The loops, characterised\<close>

subsection \<open>The loops of the genoslnodes generator\<close>

text \<open>
  Each input appends its param lines to the text and its connect lines to the deferred list;
  a node that has an implementation appends its shader line, and a run of the node loop
  that ends normally has appended, node by node, what the auxiliary definitions say.
\<close>

lemma visit_input_eq:
  "visit_input syn fmt name st i =
     st\<lparr>gs_code := gs_code st @ input_params syn fmt i,
        gs_connections := gs_connections st @ input_connects syn name i\<rparr>"
  by (simp add: visit_input_def input_params_def input_connects_def unconnected_def
        excluded_name_def emitLine_def Let_def split: option.splits)

lemma foldl_visit_input:
  "foldl (visit_input syn fmt name) st is =
     st\<lparr>gs_code := gs_code st @ concat (map (input_params syn fmt) is),
        gs_connections := gs_connections st @ concat (map (input_connects syn name) is)\<rparr>"
  by (induction "is" arbitrary: st) (simp_all add: visit_input_eq)

lemma emitLine_fields:
  "gs_code (emitLine l st) = gs_code st @ [l]"
  "gs_connections (emitLine l st) = gs_connections st"
  "gs_lastNodeName (emitLine l st) = gs_lastNodeName st"
  "gs_lastOutput (emitLine l st) = gs_lastOutput st"
  "gs_osoPaths (emitLine l st) = gs_osoPaths st"
  by (simp_all add: emitLine_def)

lemma foldl_emitLine:
  "foldl (\<lambda>s connect. emitLine connect s) st cs = st\<lparr>gs_code := gs_code st @ cs\<rparr>"
  by (induction cs arbitrary: st) (simp_all add: emitLine_def)

lemma visit_nodes_Cons:
  "visit_nodes syn fmt doc st (n # ns) =
     (case getNodeDef doc (node_nodeDefName n) of
        None \<Rightarrow> Inl NullDereference
      | Some nodeDef \<Rightarrow>
          (case getImplementation nodeDef ''genoslnodes'' of
             None \<Rightarrow> Inl NullDereference
           | Some e \<Rightarrow>
               (case asA_Implementation e of
                  None \<Rightarrow> Inr None
                | Some impl \<Rightarrow> visit_nodes syn fmt doc (after_node syn fmt st n impl) ns)))"
  by (cases st)
     (simp add: foldl_visit_input emitLine_def Let_def node_params_def node_connects_def
        after_node_def split: option.splits)

lemma visit_nodes_Cons_Some:
  assumes "visit_nodes syn fmt doc st (n # ns) = Inr (Some st')"
  shows "\<exists>impl. node_implementation doc ''genoslnodes'' n = Some impl
           \<and> visit_nodes syn fmt doc (after_node syn fmt st n impl) ns = Inr (Some st')"
  using assms unfolding visit_nodes_Cons node_implementation_def
  by (auto split: option.splits)

lemma visit_nodes_code:
  "visit_nodes syn fmt doc st ns = Inr (Some st') \<Longrightarrow>
   gs_code st' = gs_code st @ concat (map (node_declarations syn fmt doc) ns)"
proof (induction ns arbitrary: st)
  case Nil
  then show ?case by simp
next
  case (Cons n ns)
  from visit_nodes_Cons_Some [OF Cons.prems] obtain impl
    where i: "node_implementation doc ''genoslnodes'' n = Some impl"
      and r: "visit_nodes syn fmt doc (after_node syn fmt st n impl) ns = Inr (Some st')"
    by blast
  from Cons.IH [OF r] i show ?case
    by (simp add: node_declarations_def shader_line_def after_node_def)
qed

lemma visit_nodes_connections:
  "visit_nodes syn fmt doc st ns = Inr (Some st') \<Longrightarrow>
   gs_connections st' = gs_connections st @ concat (map (node_connects syn) ns)"
proof (induction ns arbitrary: st)
  case Nil
  then show ?case by simp
next
  case (Cons n ns)
  from visit_nodes_Cons_Some [OF Cons.prems] obtain impl
    where r: "visit_nodes syn fmt doc (after_node syn fmt st n impl) ns = Inr (Some st')"
    by blast
  from Cons.IH [OF r] show ?case
    by (simp add: after_node_def)
qed

lemma visit_nodes_osoPaths:
  "visit_nodes syn fmt doc st ns = Inr (Some st') \<Longrightarrow>
   gs_osoPaths st' = foldl (\<lambda>ps p. set_insert p ps) (gs_osoPaths st) (concat (map (node_files doc) ns))"
proof (induction ns arbitrary: st)
  case Nil
  then show ?case by simp
next
  case (Cons n ns)
  from visit_nodes_Cons_Some [OF Cons.prems] obtain impl
    where i: "node_implementation doc ''genoslnodes'' n = Some impl"
      and r: "visit_nodes syn fmt doc (after_node syn fmt st n impl) ns = Inr (Some st')"
    by blast
  from Cons.IH [OF r] i show ?case
    by (simp add: after_node_def node_files_def)
qed

lemma visit_nodes_implemented:
  "visit_nodes syn fmt doc st ns = Inr (Some st') \<Longrightarrow>
   \<forall>n\<in>set ns. node_implementation doc ''genoslnodes'' n \<noteq> None"
proof (induction ns arbitrary: st)
  case Nil
  then show ?case by simp
next
  case (Cons n ns)
  from visit_nodes_Cons_Some [OF Cons.prems] obtain impl
    where i: "node_implementation doc ''genoslnodes'' n = Some impl"
      and r: "visit_nodes syn fmt doc (after_node syn fmt st n impl) ns = Inr (Some st')"
    by blast
  from Cons.IH [OF r] i show ?case by simp
qed

lemma visit_nodes_last:
  "visit_nodes syn fmt doc st ns = Inr (Some st') \<Longrightarrow> ns \<noteq> [] \<Longrightarrow>
   gs_lastOutput st' = Some (node_output0 (last ns)) \<and> gs_lastNodeName st' = node_name (last ns)"
proof (induction ns arbitrary: st)
  case Nil
  then show ?case by simp
next
  case (Cons n ns)
  from visit_nodes_Cons_Some [OF Cons.prems(1)] obtain impl
    where r: "visit_nodes syn fmt doc (after_node syn fmt st n impl) ns = Inr (Some st')"
    by blast
  show ?case
  proof (cases "ns = []")
    case True
    with r show ?thesis by (auto simp: after_node_def)
  next
    case False
    with Cons.IH [OF r] show ?thesis by simp
  qed
qed

lemma visit_nodes_no_uninit:
  "visit_nodes syn fmt doc st ns \<noteq> Inl UninitializedRead"
  by (induction ns arbitrary: st) (simp_all add: visit_nodes_Cons split: option.splits del: visit_nodes.simps(2))


subsection \<open>createShader and generate\<close>

text \<open>
  The shader \<^verbatim>\<open>createShader\<close> returns has an empty text and no attribute; the text
  \<^verbatim>\<open>generate\<close> returns is the declarations, the connections and the lines of the
  wrapper block.
\<close>

lemma createShader_graph [simp]:
  "shader_graph (createShader gen name el ctx) = ShaderGraph_create gen name el ctx"
  by (simp add: createShader_def Let_def)

lemma createShader_code [simp]: "stage_code (createShader gen name el ctx) = []"
  by (simp add: createShader_def Let_def)

lemma createShader_attributes [simp]: "shader_attributes (createShader gen name el ctx) = []"
  by (simp add: createShader_def Let_def)

lemma add_uniforms_eq:
  "add_uniforms graph uniforms ss =
     uniforms\<lparr>block_variables := block_variables uniforms
        @ filter (\<lambda>s. socket_connections s \<noteq> [] \<and> graph_isEditable graph s) ss\<rparr>"
  by (induction ss arbitrary: uniforms) (simp_all add: block_add_def)

lemma add_outputs_eq:
  "add_outputs outputs ss = outputs\<lparr>block_variables := block_variables outputs @ ss\<rparr>"
  by (induction ss arbitrary: outputs) (simp_all add: block_add_def)

lemma generate_genoslnodes_SomeD:
  assumes "fst (generate_genoslnodes gen name el ctx fmt) = Inr (Some sh)"
  shows "\<exists>st1. visit_nodes (gen_syntax gen) fmt (element_document el) init_state
                  (graph_nodes (ShaderGraph_create gen name el ctx)) = Inr (Some st1)
           \<and> (oslNodesConnectCiWrapper ctx \<longrightarrow> gs_lastOutput st1 \<noteq> None)
           \<and> stage_code sh = gs_code st1 @ gs_connections st1
                @ (if oslNodesConnectCiWrapper ctx
                   then [''shader setCi root ;'',
                         connectString (gs_lastNodeName st1) (output_name (the (gs_lastOutput st1)))
                           ''root'' (output_type (the (gs_lastOutput st1)) @ ''_input'')]
                   else [])
           \<and> shader_attributes sh = [(''osoPath'', join_osoPaths ctx [] [] (gs_osoPaths st1))]"
  using assms
  by (auto simp: generate_genoslnodes_def Let_def init_state_def connectCiWrapper_def
      foldl_emitLine emitLine_fields split: sum.splits option.splits if_splits)

lemma generate_genoslnodes_code:
  assumes "fst (generate_genoslnodes gen name el ctx fmt) = Inr (Some sh)"
  shows "stage_code sh =
           concat (map (node_declarations (gen_syntax gen) fmt (element_document el))
                     (graph_nodes (ShaderGraph_create gen name el ctx)))
           @ concat (map (node_connects (gen_syntax gen)) (graph_nodes (ShaderGraph_create gen name el ctx)))
           @ sink_lines ctx (graph_nodes (ShaderGraph_create gen name el ctx))"
proof -
  let ?ns = "graph_nodes (ShaderGraph_create gen name el ctx)"
  from generate_genoslnodes_SomeD [OF assms] obtain st1 where
    v: "visit_nodes (gen_syntax gen) fmt (element_document el) init_state ?ns = Inr (Some st1)"
    and w: "oslNodesConnectCiWrapper ctx \<longrightarrow> gs_lastOutput st1 \<noteq> None"
    and c: "stage_code sh = gs_code st1 @ gs_connections st1
                @ (if oslNodesConnectCiWrapper ctx
                   then [''shader setCi root ;'',
                         connectString (gs_lastNodeName st1) (output_name (the (gs_lastOutput st1)))
                           ''root'' (output_type (the (gs_lastOutput st1)) @ ''_input'')]
                   else [])"
    by blast
  have ne: "oslNodesConnectCiWrapper ctx \<Longrightarrow> ?ns \<noteq> []"
  proof
    assume "oslNodesConnectCiWrapper ctx" and "?ns = []"
    with v w show False by (auto simp: init_state_def)
  qed
  have code: "gs_code st1 = concat (map (node_declarations (gen_syntax gen) fmt (element_document el)) ?ns)"
    using visit_nodes_code [OF v] by (simp add: init_state_def)
  have conn: "gs_connections st1 = concat (map (node_connects (gen_syntax gen)) ?ns)"
    using visit_nodes_connections [OF v] by (simp add: init_state_def)
  show ?thesis
  proof (cases "oslNodesConnectCiWrapper ctx")
    case True
    with ne have "?ns \<noteq> []" by simp
    from visit_nodes_last [OF v this] True c code conn \<open>?ns \<noteq> []\<close> show ?thesis
      by (simp add: sink_lines_def)
  next
    case False
    with c code conn show ?thesis by (simp add: sink_lines_def)
  qed
qed

lemma generate_genoslnodes_nonempty:
  assumes "fst (generate_genoslnodes gen name el ctx fmt) = Inr (Some sh)"
    and "oslNodesConnectCiWrapper ctx"
  shows "graph_nodes (ShaderGraph_create gen name el ctx) \<noteq> []"
proof
  assume e: "graph_nodes (ShaderGraph_create gen name el ctx) = []"
  from generate_genoslnodes_SomeD [OF assms(1)] obtain st1 where
    "visit_nodes (gen_syntax gen) fmt (element_document el) init_state
       (graph_nodes (ShaderGraph_create gen name el ctx)) = Inr (Some st1)"
    and "oslNodesConnectCiWrapper ctx \<longrightarrow> gs_lastOutput st1 \<noteq> None"
    by blast
  with e assms(2) show False by (auto simp: init_state_def)
qed

subsection \<open>The loops of the genosl generator\<close>

text \<open>
  The same characterisation, with the fault of an input that has no connection.
\<close>

lemma visit_input_genosl_eq:
  "visit_input_genosl syn FloatFormatFixed name st i =
     (if input_faults_genosl i then Inl NullDereference
      else Inr (st\<lparr>gs_code := gs_code st @ input_params_genosl syn i,
                   gs_connections := gs_connections st @ input_connects_genosl name i\<rparr>))"
  by (simp add: visit_input_genosl_def input_params_genosl_def input_connects_genosl_def
      input_faults_genosl_def excluded_name_def emitLine_def paramString_def connectString_def
      Let_def split: option.splits)

lemma visit_inputs_genosl_Inr:
  "visit_inputs_genosl syn FloatFormatFixed name st is = Inr st' \<Longrightarrow>
   st' = st\<lparr>gs_code := gs_code st @ concat (map (input_params_genosl syn) is),
            gs_connections := gs_connections st @ concat (map (input_connects_genosl name) is)\<rparr>"
proof (induction "is" arbitrary: st)
  case Nil
  then show ?case by simp
next
  case (Cons i "is")
  show ?case
  proof (cases "input_faults_genosl i")
    case True
    with Cons.prems show ?thesis by (simp add: visit_input_genosl_eq)
  next
    case False
    with Cons.prems have
      "visit_inputs_genosl syn FloatFormatFixed name
         (st\<lparr>gs_code := gs_code st @ input_params_genosl syn i,
             gs_connections := gs_connections st @ input_connects_genosl name i\<rparr>) is = Inr st'"
      by (simp add: visit_input_genosl_eq)
    from Cons.IH [OF this] show ?thesis by simp
  qed
qed

lemma visit_inputs_genosl_fault:
  "visit_inputs_genosl syn FloatFormatFixed name st is = Inl f \<Longrightarrow> f = NullDereference"
  by (induction "is" arbitrary: st) (simp_all add: visit_input_genosl_eq split: if_splits)

lemma visit_inputs_genosl_no_fault:
  "visit_inputs_genosl syn FloatFormatFixed name st is = Inr st' \<Longrightarrow>
   \<forall>i\<in>set is. \<not> input_faults_genosl i"
  by (induction "is" arbitrary: st) (auto simp: visit_input_genosl_eq split: if_splits)

lemma visit_nodes_genosl_Inr:
  "visit_nodes_genosl syn FloatFormatFixed st ns = Inr st' \<Longrightarrow>
   gs_code st' = gs_code st @ concat (map (node_declarations_genosl syn) ns)
   \<and> gs_connections st' = gs_connections st @ concat (map node_connects_genosl ns)"
proof (induction ns arbitrary: st)
  case Nil
  then show ?case by simp
next
  case (Cons n ns)
  from Cons.prems obtain st1 where
    i: "visit_inputs_genosl syn FloatFormatFixed (node_name n) st (node_inputs n) = Inr st1"
    and r: "visit_nodes_genosl syn FloatFormatFixed
              (emitLine (''shader '' @ strip_ND (node_nodeDefName n) @ '' '' @ node_name n @ '' ;'') st1) ns
            = Inr st'"
    by (auto simp: Let_def split: sum.splits)
  from Cons.IH [OF r] visit_inputs_genosl_Inr [OF i] show ?case
    by (simp add: emitLine_fields node_declarations_genosl_def node_connects_genosl_def)
qed

lemma visit_nodes_genosl_no_fault:
  "visit_nodes_genosl syn FloatFormatFixed st ns = Inr st' \<Longrightarrow>
   \<forall>n\<in>set ns. \<forall>i\<in>set (node_inputs n). \<not> input_faults_genosl i"
proof (induction ns arbitrary: st)
  case Nil
  then show ?case by simp
next
  case (Cons n ns)
  from Cons.prems obtain st1 where
    i: "visit_inputs_genosl syn FloatFormatFixed (node_name n) st (node_inputs n) = Inr st1"
    and r: "visit_nodes_genosl syn FloatFormatFixed
              (emitLine (''shader '' @ strip_ND (node_nodeDefName n) @ '' '' @ node_name n @ '' ;'') st1) ns
            = Inr st'"
    by (auto simp: Let_def split: sum.splits)
  from Cons.IH [OF r] visit_inputs_genosl_no_fault [OF i] show ?case by simp
qed

lemma generate_genosl_code:
  assumes "fst (generate_genosl gen name el ctx fmt) = Inr sh"
  shows "stage_code sh =
           concat (map (node_declarations_genosl (gen_syntax gen))
                     (graph_nodes (ShaderGraph_create gen name el ctx)))
           @ concat (map node_connects_genosl (graph_nodes (ShaderGraph_create gen name el ctx)))"
proof -
  from assms obtain st1 where
    v: "visit_nodes_genosl (gen_syntax gen) FloatFormatFixed init_state
          (graph_nodes (ShaderGraph_create gen name el ctx)) = Inr st1"
    and c: "stage_code sh = gs_code st1 @ gs_connections st1"
    by (auto simp: generate_genosl_def Let_def init_state_def foldl_emitLine split: sum.splits)
  from visit_nodes_genosl_Inr [OF v] c show ?thesis by (simp add: init_state_def)
qed

lemma generate_genosl_no_fault:
  assumes "fst (generate_genosl gen name el ctx fmt) = Inr sh"
  shows "\<forall>n\<in>set (graph_nodes (ShaderGraph_create gen name el ctx)).
           \<forall>i\<in>set (node_inputs n). \<not> input_faults_genosl i"
proof -
  from assms obtain st1 where
    "visit_nodes_genosl (gen_syntax gen) FloatFormatFixed init_state
          (graph_nodes (ShaderGraph_create gen name el ctx)) = Inr st1"
    by (auto simp: generate_genosl_def Let_def init_state_def split: sum.splits)
  from visit_nodes_genosl_no_fault [OF this] show ?thesis .
qed

subsection \<open>Declarations and connections in the text\<close>

text \<open>
  No line is both; a text made of declarations followed by connect lines has the ordering
  property.
\<close>

lemma is_declaration_paramString [simp]: "is_declaration (paramString t n v)"
  by (simp add: is_declaration_def paramString_def)

lemma is_connect_connectString [simp]: "is_connect (connectString a b c d)"
  by (simp add: is_connect_def connectString_def)

lemma not_both:
  assumes "is_connect l"
  shows "\<not> is_declaration l"
proof -
  have "l = take 8 l @ drop 8 l" by simp
  with assms have "l = ''connect '' @ drop 8 l" by (simp add: is_connect_def)
  then obtain r where "l = ''connect '' @ r" ..
  then show ?thesis by (simp add: is_declaration_def)
qed

lemma declarations_node: "\<forall>l\<in>set (node_declarations syn fmt doc n). is_declaration l"
  by (auto simp: node_declarations_def node_params_def input_params_def shader_line_def
      is_declaration_def paramString_def split: option.splits if_splits)

lemma connects_node: "\<forall>l\<in>set (node_connects syn n). is_connect l"
  by (auto simp: node_connects_def input_connects_def split: option.splits if_splits)

lemma declarations_node_genosl: "\<forall>l\<in>set (node_declarations_genosl syn n). is_declaration l"
  by (auto simp: node_declarations_genosl_def input_params_genosl_def is_declaration_def paramString_def
      split: option.splits if_splits)

lemma connects_node_genosl: "\<forall>l\<in>set (node_connects_genosl n). is_connect l"
  by (auto simp: node_connects_genosl_def input_connects_genosl_def split: option.splits if_splits)

lemma connects_after_declarations_append:
  assumes "\<forall>l\<in>set ds. is_declaration l" and "\<forall>l\<in>set cs. is_connect l"
  shows "connects_after_declarations (ds @ cs)"
  unfolding connects_after_declarations_def
proof (intro allI impI)
  fix i j
  assume a: "i < length (ds @ cs) \<and> j < length (ds @ cs) \<and> is_connect ((ds @ cs) ! i)
             \<and> is_declaration ((ds @ cs) ! j)"
  have i: "length ds \<le> i"
  proof (rule ccontr)
    assume "\<not> length ds \<le> i"
    then have "i < length ds" by simp
    with assms(1) have "is_declaration ((ds @ cs) ! i)" by (simp add: nth_append)
    with a not_both show False by blast
  qed
  have j: "j < length ds"
  proof (rule ccontr)
    assume n: "\<not> j < length ds"
    with a have "j - length ds < length cs" by auto
    with assms(2) have "is_connect (cs ! (j - length ds))" by simp
    with n have "is_connect ((ds @ cs) ! j)" by (simp add: nth_append)
    with a not_both show False by blast
  qed
  from i j show "j < i" by simp
qed

lemma declarations_precede_connects_append:
  assumes "\<forall>l\<in>set ds. is_declaration l"
  shows "declarations_precede_connects ds (ds @ rest)"
  unfolding declarations_precede_connects_def
proof (intro conjI allI impI)
  show "take (length ds) (ds @ rest) = ds" by simp
next
  fix i
  assume "i < length (ds @ rest)" and c: "is_connect ((ds @ rest) ! i)"
  show "length ds \<le> i"
  proof (rule ccontr)
    assume "\<not> length ds \<le> i"
    then have "i < length ds" by simp
    with assms have "is_declaration ((ds @ rest) ! i)" by (simp add: nth_append)
    with c not_both show False by blast
  qed
qed

subsection \<open>The set of required files\<close>

text \<open>
  Inserting into the sorted duplicate-free list keeps it so; the list after the node loop is
  the sorted list of the set of files, and the joined string is the comma-separated one.
\<close>

lemma set_set_insert: "set (set_insert x xs) = insert x (set xs)"
  by (induction xs) auto

lemma sorted_distinct_set_insert:
  "sorted xs \<and> distinct xs \<Longrightarrow> sorted (set_insert x xs) \<and> distinct (set_insert x xs)"
  by (induction xs) (auto simp: set_set_insert)

lemma foldl_set_insert:
  "sorted acc \<and> distinct acc \<Longrightarrow>
   sorted (foldl (\<lambda>ps p. set_insert p ps) acc xs) \<and> distinct (foldl (\<lambda>ps p. set_insert p ps) acc xs)
   \<and> set (foldl (\<lambda>ps p. set_insert p ps) acc xs) = set acc \<union> set xs"
proof (induction xs arbitrary: acc)
  case Nil
  then show ?case by simp
next
  case (Cons x xs)
  from Cons.IH [OF sorted_distinct_set_insert [OF Cons.prems, of x]] show ?case
    by (simp add: set_set_insert)
qed

lemma foldl_set_insert_sorted_list:
  "foldl (\<lambda>ps p. set_insert p ps) [] xs = sorted_list_of_set (set xs)"
proof -
  have "sorted ([]::string list) \<and> distinct ([]::string list)" by simp
  from foldl_set_insert [OF this, of xs]
  have "sorted (foldl (\<lambda>ps p. set_insert p ps) [] xs)"
    and "distinct (foldl (\<lambda>ps p. set_insert p ps) [] xs)"
    and "set (foldl (\<lambda>ps p. set_insert p ps) [] xs) = set xs"
    by simp_all
  then show ?thesis
    by (intro sorted_distinct_set_unique) simp_all
qed

lemma join_osoPaths_acc:
  "join_osoPaths ctx acc '','' ps = acc @ concat (map (\<lambda>p. '','' @ resolveSourceFile ctx p []) ps)"
  by (induction ps arbitrary: acc) (simp_all add: Let_def)

lemma join_osoPaths_comma_joined:
  "join_osoPaths ctx [] [] ps = comma_joined (map (\<lambda>p. resolveSourceFile ctx p []) ps)"
  by (cases ps) (simp_all add: comma_joined_def Let_def join_osoPaths_acc comp_def)

lemma generate_genoslnodes_osoPath:
  assumes "fst (generate_genoslnodes gen name el ctx fmt) = Inr (Some sh)"
  shows "shader_attributes sh =
           [(''osoPath'', comma_joined (map (\<lambda>p. resolveSourceFile ctx p [])
               (sorted_list_of_set (required_files (element_document el)
                  (graph_nodes (ShaderGraph_create gen name el ctx))))))]"
proof -
  from generate_genoslnodes_SomeD [OF assms] obtain st1 where
    v: "visit_nodes (gen_syntax gen) fmt (element_document el) init_state
          (graph_nodes (ShaderGraph_create gen name el ctx)) = Inr (Some st1)"
    and a: "shader_attributes sh = [(''osoPath'', join_osoPaths ctx [] [] (gs_osoPaths st1))]"
    by blast
  from visit_nodes_osoPaths [OF v] a show ?thesis
    by (simp add: init_state_def foldl_set_insert_sorted_list join_osoPaths_comma_joined required_files_def)
qed

lemma required_files_set:
  "set ns = set ns' \<Longrightarrow> required_files doc ns = required_files doc ns'"
  by (simp add: required_files_def)

subsection \<open>The loop of main\<close>

text \<open>
  An iteration skips, throws out of \<^verbatim>\<open>main\<close>, or runs the \<^verbatim>\<open>try\<close> block and
  removes the instance it added; the loop over a list of definitions follows.
\<close>

lemma removeChild_added:
  "name \<notin> set (map child_name doc) \<Longrightarrow> removeChild (doc @ [NodeChild name d]) name = doc"
  by (induction doc) (auto simp: removeChild_def)

lemma catch_handlers_fields:
  "librariesDoc (catch_handlers n st r) = librariesDoc st"
  "hasFailed (catch_handlers n st r) = (hasFailed st \<or> r \<noteq> Completed)"
  by (simp_all add: catch_handlers_def split: outcome.splits exn.splits)

lemma main_iteration_skip:
  "\<not> eligible drv nd \<Longrightarrow>
   main_iteration drv st nd = Inr (st\<lparr>logFile := logFile st @ [skip_notice drv nd]\<rparr>)"
  by (simp add: main_iteration_def eligible_def skip_notice_def Let_def)

lemma main_iteration_throw:
  "eligible drv nd \<Longrightarrow> name_in_use drv (librariesDoc st) nd \<Longrightarrow>
   main_iteration drv st nd = Inl (''Child name is not unique: '' @ nodeName_of drv nd)"
  by (auto simp: main_iteration_def eligible_def name_in_use_def addNodeInstance_def Let_def)

lemma main_iteration_try:
  assumes "eligible drv nd" and "\<not> name_in_use drv (librariesDoc st) nd"
  shows "main_iteration drv st nd =
     Inr (st\<lparr>logFile := logFile st @ log_lines drv (librariesDoc st) nd,
             hasFailed := hasFailed st \<or> try_outcome drv (librariesDoc st) nd \<noteq> Completed\<rparr>)"
proof -
  from assms(2) have n: "nodeName_of drv nd \<notin> set (map child_name (librariesDoc st))"
    by (simp add: name_in_use_def)
  from assms(1) obtain e where e: "getImplementation nd (getTarget drv) = Some e"
    by (auto simp: eligible_def)
  show ?thesis
  proof (cases "try_outcome drv (librariesDoc st) nd")
    case Completed
    with assms(1) n e removeChild_added [OF n] show ?thesis
      by (cases st)
         (simp add: main_iteration_def addNodeInstance_def Let_def catch_handlers_def log_lines_def
            try_outcome_def del: set_map)
  next
    case (Throws x)
    with assms(1) n e removeChild_added [OF n] show ?thesis
      by (cases st; cases x)
         (simp_all add: main_iteration_def addNodeInstance_def Let_def catch_handlers_def log_lines_def
            try_outcome_def del: set_map)
  qed
qed

lemma main_iteration_doc:
  "main_iteration drv st nd = Inr st' \<Longrightarrow> librariesDoc st' = librariesDoc st"
proof (cases "eligible drv nd")
  case False
  assume "main_iteration drv st nd = Inr st'"
  with False show ?thesis by (auto simp: main_iteration_skip)
next
  case True
  assume a: "main_iteration drv st nd = Inr st'"
  show ?thesis
  proof (cases "name_in_use drv (librariesDoc st) nd")
    case True
    with \<open>eligible drv nd\<close> a show ?thesis by (simp add: main_iteration_throw)
  next
    case False
    with \<open>eligible drv nd\<close> a show ?thesis by (auto simp: main_iteration_try)
  qed
qed

lemma main_loop_doc:
  "main_loop drv st nds = Inr st' \<Longrightarrow> librariesDoc st' = librariesDoc st"
proof (induction nds arbitrary: st)
  case Nil
  then show ?case by simp
next
  case (Cons nd nds)
  from Cons.prems obtain st1 where i: "main_iteration drv st nd = Inr st1"
    and r: "main_loop drv st1 nds = Inr st'"
    by (auto split: sum.splits)
  from Cons.IH [OF r] main_iteration_doc [OF i] show ?case by simp
qed

lemma main_loop_append:
  "main_loop drv st (xs @ ys) =
     (case main_loop drv st xs of Inl what \<Rightarrow> Inl what | Inr st1 \<Rightarrow> main_loop drv st1 ys)"
  by (induction xs arbitrary: st) (simp_all split: sum.splits)

lemma main_iteration_no_throw:
  assumes "eligible drv nd \<longrightarrow> \<not> name_in_use drv (librariesDoc st) nd"
  shows "main_iteration drv st nd =
     Inr (st\<lparr>logFile := logFile st @ log_lines drv (librariesDoc st) nd,
             hasFailed := hasFailed st \<or> fails drv (librariesDoc st) nd\<rparr>)"
proof (cases "eligible drv nd")
  case True
  with assms main_iteration_try [of drv nd st] show ?thesis by (simp add: fails_def)
next
  case False
  then show ?thesis by (simp add: main_iteration_skip log_lines_def fails_def)
qed

lemma main_loop_no_throw:
  assumes "\<forall>nd\<in>set nds. eligible drv nd \<longrightarrow> \<not> name_in_use drv (librariesDoc st) nd"
  shows "main_loop drv st nds =
     Inr (st\<lparr>logFile := logFile st @ concat (map (log_lines drv (librariesDoc st)) nds),
             hasFailed := hasFailed st \<or> (\<exists>nd\<in>set nds. fails drv (librariesDoc st) nd)\<rparr>)"
  using assms
proof (induction nds arbitrary: st)
  case Nil
  then show ?case by simp
next
  case (Cons nd nds)
  let ?st1 = "st\<lparr>logFile := logFile st @ log_lines drv (librariesDoc st) nd,
                  hasFailed := hasFailed st \<or> fails drv (librariesDoc st) nd\<rparr>"
  from Cons.prems have i: "main_iteration drv st nd = Inr ?st1"
    by (intro main_iteration_no_throw) simp
  have d: "librariesDoc ?st1 = librariesDoc st" by simp
  from Cons.prems have "\<forall>nd\<in>set nds. eligible drv nd \<longrightarrow> \<not> name_in_use drv (librariesDoc ?st1) nd"
    by simp
  from Cons.IH [OF this] i show ?case
    by (cases st) (auto simp: disj_ac)
qed

lemma main_loop_throw:
  assumes "\<exists>nd\<in>set nds. eligible drv nd \<and> name_in_use drv (librariesDoc st) nd"
  shows "\<exists>what. main_loop drv st nds = Inl what"
  using assms
proof (induction nds arbitrary: st)
  case Nil
  then show ?case by simp
next
  case (Cons nd nds)
  show ?case
  proof (cases "eligible drv nd \<and> name_in_use drv (librariesDoc st) nd")
    case True
    then show ?thesis by (simp add: main_iteration_throw)
  next
    case False
    then have e: "eligible drv nd \<longrightarrow> \<not> name_in_use drv (librariesDoc st) nd" by blast
    let ?st1 = "st\<lparr>logFile := logFile st @ log_lines drv (librariesDoc st) nd,
                    hasFailed := hasFailed st \<or> fails drv (librariesDoc st) nd\<rparr>"
    from False Cons.prems have "\<exists>nd\<in>set nds. eligible drv nd \<and> name_in_use drv (librariesDoc ?st1) nd"
      by auto
    from Cons.IH [OF this] main_iteration_no_throw [OF e] show ?thesis by simp
  qed
qed

lemma main_return_zero:
  "main_return r = Return 0 \<longleftrightarrow> (\<exists>st. r = Inr st \<and> \<not> hasFailed st)"
  by (cases r) (auto simp: main_return_def)

lemma main_return_loop_cong:
  "librariesDoc st = librariesDoc st' \<Longrightarrow> hasFailed st = hasFailed st' \<Longrightarrow>
   main_return (main_loop drv st nds) = main_return (main_loop drv st' nds)"
proof (induction nds arbitrary: st st')
  case Nil
  then show ?case by (simp add: main_return_def)
next
  case (Cons nd nds)
  show ?case
  proof (cases "eligible drv nd \<and> name_in_use drv (librariesDoc st) nd")
    case True
    with Cons.prems show ?thesis by (simp add: main_iteration_throw)
  next
    case False
    then have e: "eligible drv nd \<longrightarrow> \<not> name_in_use drv (librariesDoc st) nd" by blast
    with Cons.prems have e': "eligible drv nd \<longrightarrow> \<not> name_in_use drv (librariesDoc st') nd" by simp
    from main_iteration_no_throw [OF e] main_iteration_no_throw [OF e'] Cons.prems
      Cons.IH [of "st\<lparr>logFile := logFile st @ log_lines drv (librariesDoc st) nd,
                     hasFailed := hasFailed st \<or> fails drv (librariesDoc st) nd\<rparr>"
                  "st'\<lparr>logFile := logFile st' @ log_lines drv (librariesDoc st') nd,
                      hasFailed := hasFailed st' \<or> fails drv (librariesDoc st') nd\<rparr>"]
    show ?thesis by simp
  qed
qed

subsection \<open>The concrete network and catalog, evaluated\<close>

text \<open>
  The lookups in the catalog, the names the driver derives, and the text both generators
  emit for the network of the nodes \<open>A\<close> and \<open>B\<close>.
\<close>

lemma ex_lookups:
  "getNodeDef ex_doc ''ND_a'' = Some ex_ndA"
  "getNodeDef ex_doc ''ND_b'' = Some ex_ndB"
  "getNodeDef ex_doc ''ND_c'' = Some ex_ndC"
  "getNodeDef ex_doc ''ND_g'' = Some ex_ndG"
  "getNodeDefs ex_doc = [ex_ndA, ex_ndB, ex_ndC, ex_ndG]"
  by (simp_all add: ex_doc_def ex_ndA_def ex_ndB_def ex_ndC_def ex_ndG_def)

lemma ex_impls:
  "getImplementation ex_ndA ''genoslnodes''
     = Some (ImplementationElement \<lparr>impl_function = ''implA'', impl_file = ''lib/z.osl''\<rparr>)"
  "getImplementation ex_ndB ''genoslnodes''
     = Some (ImplementationElement \<lparr>impl_function = ''implB'', impl_file = ''lib/b.osl''\<rparr>)"
  "getImplementation ex_ndC ''genoslnodes'' = None"
  "getImplementation ex_ndG ''genoslnodes'' = Some (NodeGraphElement ''NG_g'')"
  "getImplementation ex_ndA ''genosl''
     = Some (ImplementationElement \<lparr>impl_function = ''mx_a'', impl_file = ''lib/mx_a.osl''\<rparr>)"
  "getImplementation ex_ndB ''genosl''
     = Some (ImplementationElement \<lparr>impl_function = ''mx_b'', impl_file = ''lib/mx_b.osl''\<rparr>)"
  "getImplementation ex_ndC ''genosl'' = None"
  "getImplementation ex_ndG ''genosl'' = None"
  by (simp_all add: getImplementation_def ex_ndA_def ex_ndB_def ex_ndC_def ex_ndG_def)

lemma ex_gen_simps [simp]:
  "graph_nodes (ShaderGraph_create (ex_gen ns) n e c) = ns"
  "gen_syntax (ex_gen ns) = ex_syntax"
  "createVariables (ex_gen ns) g c = ([], [], [])"
  "element_document ex_elem = ex_doc"
  "oslNodesConnectCiWrapper (ex_context w) = w"
  by (simp_all add: ex_gen_def ex_graph_def ex_elem_def ex_context_def)

lemmas ex_eval =
  generate_genoslnodes_def Let_def visit_nodes_Cons ex_lookups ex_impls
  after_node_def node_params_def node_connects_def input_params_def input_connects_def
  unconnected_def excluded_name_def paramString_def connectString_def connectCiWrapper_def
  foldl_emitLine emitLine_fields emitLine_def
  ex_nodeA_def ex_nodeB_def ex_nodeC_def ex_nodeG_def ex_input_in_def ex_input_bg_def ex_syntax_def

lemmas ex_eval_genosl =
  generate_genosl_def Let_def visit_input_genosl_def strip_ND_def
  foldl_emitLine emitLine_fields emitLine_def
  ex_nodeA_def ex_nodeB_def ex_nodeC_def ex_nodeG_def ex_input_in_def ex_input_bg_def ex_syntax_def

lemma ex_code_AB_sink:
  "\<exists>sh. fst (generate_genoslnodes (ex_gen [ex_nodeA, ex_nodeB]) ''g'' ex_elem (ex_context True) FloatFormatFixed)
          = Inr (Some sh)
     \<and> stage_code sh = [''shader implA A ;'', ''param float in1 0.000010 ;'', ''shader implB B ;'',
                          ''connect A.out1 B.bg ;'', ''shader setCi root ;'',
                          ''connect B.out root.color_input ;'']"
  by (simp add: ex_eval del: visit_nodes.simps(2))

lemma ex_code_AB_default:
  "\<exists>sh. fst (generate_genoslnodes (ex_gen [ex_nodeA, ex_nodeB]) ''g'' ex_elem (ex_context False) FloatFormatDefault)
          = Inr (Some sh)
     \<and> stage_code sh = [''shader implA A ;'', ''param float in1 1e-05 ;'', ''shader implB B ;'',
                          ''connect A.out1 B.bg ;'']"
  by (simp add: ex_eval del: visit_nodes.simps(2))

lemma ex_code_AB_genosl:
  "\<exists>sh. fst (generate_genosl (ex_gen [ex_nodeA, ex_nodeB]) ''g'' ex_elem (ex_context False) FloatFormatDefault)
          = Inr sh
     \<and> stage_code sh = [''shader a A ;'', ''param float in 0.000010 ;'', ''shader b B ;'',
                          ''connect A.out B.bg ;'']"
  by (simp add: ex_eval_genosl)

lemma ex_declarations:
  "concat (map (node_declarations ex_syntax FloatFormatFixed ex_doc) [ex_nodeA, ex_nodeB])
     = [''shader implA A ;'', ''param float in1 0.000010 ;'', ''shader implB B ;'']"
  "concat (map (node_declarations_genosl ex_syntax) [ex_nodeA, ex_nodeB])
     = [''shader a A ;'', ''param float in 0.000010 ;'', ''shader b B ;'']"
  by (simp_all add: node_declarations_def node_params_def shader_line_def node_implementation_def
      input_params_def unconnected_def excluded_name_def paramString_def ex_lookups ex_impls
      node_declarations_genosl_def input_params_genosl_def strip_ND_def
      ex_nodeA_def ex_nodeB_def ex_input_in_def ex_input_bg_def ex_syntax_def)

lemma ex_code_ABA2:
  "\<exists>sh. fst (generate_genoslnodes (ex_gen [ex_nodeA, ex_nodeB, ex_nodeA2]) ''g'' ex_elem (ex_context False) FloatFormatFixed)
          = Inr (Some sh)"
  by (simp add: ex_eval ex_nodeA2_def del: visit_nodes.simps(2))

lemma ex_code_A2BA:
  "\<exists>sh. fst (generate_genoslnodes (ex_gen [ex_nodeA2, ex_nodeB, ex_nodeA]) ''h'' ex_elem (ex_context False) FloatFormatDefault)
          = Inr (Some sh)"
  by (simp add: ex_eval ex_nodeA2_def del: visit_nodes.simps(2))

lemma ex_names:
  "nodeName_of (ex_driver f) ex_ndA = ''mx_a''"
  "nodeName_of (ex_driver f) ex_ndB = ''mx_b''"
  "nodeName_of (ex_driver f) ex_ndC = ''mx_c''"
  "nodeName_of (ex_driver f) ex_ndG = ''mx_g''"
  "map child_name ex_doc = [''ND_a'', ''ND_b'', ''ND_c'', ''ND_g'']"
  "getTarget (ex_driver f) = ''genosl''"
  by (simp_all add: nodeName_of_def ex_driver_def ex_doc_def ex_ndA_def ex_ndB_def ex_ndC_def ex_ndG_def)

lemma ex_outcomes:
  "try_outcome (ex_driver f) doc nd =
     (if nodeName_of (ex_driver f) nd \<in> set f
      then Throws (ExceptionRenderError ''Command return code: 1''
                     [nodeName_of (ex_driver f) nd @ ''.osl:3: error: Unknown shader''])
      else Completed)"
  by (simp add: try_outcome_def ex_driver_def)


section \<open>Properties\<close>

text \<open>
  C1. In the text \<^verbatim>\<open>generate\<close> emits, every connect statement comes after every
  declaration statement of the graph's nodes, for any order of the nodes and both values of
  \<^verbatim>\<open>oslNodesConnectCiWrapper\<close>: the text starts with the param and shader lines of
  the nodes, in graph order, and every connect line (those of the nodes' inputs, in the
  order the inputs are visited, and the one of the wrapper block) comes after all of them.
  The wrapper block, when the option is set, appends \<^verbatim>\<open>shader setCi root ;\<close> and the
  connect line of the last node's output after the connect lines of the graph; without the
  option, and in the genosl generator, no declaration at all follows a connect line.
\<close>

theorem connects_after_node_declarations:
  "(fst (generate_genoslnodes gen name el ctx fmt) = Inr (Some sh) \<longrightarrow>
      stage_code sh =
        concat (map (node_declarations (gen_syntax gen) fmt (element_document el))
                  (graph_nodes (ShaderGraph_create gen name el ctx)))
        @ concat (map (node_connects (gen_syntax gen)) (graph_nodes (ShaderGraph_create gen name el ctx)))
        @ sink_lines ctx (graph_nodes (ShaderGraph_create gen name el ctx))
      \<and> declarations_precede_connects
          (concat (map (node_declarations (gen_syntax gen) fmt (element_document el))
                     (graph_nodes (ShaderGraph_create gen name el ctx))))
          (stage_code sh)
      \<and> (if oslNodesConnectCiWrapper ctx
          then sink_lines ctx (graph_nodes (ShaderGraph_create gen name el ctx))
                 = [''shader setCi root ;'',
                    connectString (node_name (last (graph_nodes (ShaderGraph_create gen name el ctx))))
                      (output_name (node_output0 (last (graph_nodes (ShaderGraph_create gen name el ctx)))))
                      ''root''
                      (output_type (node_output0 (last (graph_nodes (ShaderGraph_create gen name el ctx))))
                         @ ''_input'')]
          else sink_lines ctx (graph_nodes (ShaderGraph_create gen name el ctx)) = []
               \<and> connects_after_declarations (stage_code sh)))
   \<and> (fst (generate_genosl gen name el ctx fmt) = Inr sh' \<longrightarrow>
      stage_code sh' =
        concat (map (node_declarations_genosl (gen_syntax gen)) (graph_nodes (ShaderGraph_create gen name el ctx)))
        @ concat (map node_connects_genosl (graph_nodes (ShaderGraph_create gen name el ctx)))
      \<and> declarations_precede_connects
          (concat (map (node_declarations_genosl (gen_syntax gen)) (graph_nodes (ShaderGraph_create gen name el ctx))))
          (stage_code sh')
      \<and> connects_after_declarations (stage_code sh'))
   \<and> list_all is_declaration (node_declarations (gen_syntax gen) fmt (element_document el) n)
   \<and> list_all is_connect (node_connects (gen_syntax gen) n)
   \<and> list_all is_declaration (node_declarations_genosl (gen_syntax gen) n)
   \<and> list_all is_connect (node_connects_genosl n)"
proof (intro conjI impI)
  let ?ns = "graph_nodes (ShaderGraph_create gen name el ctx)"
  let ?ds = "concat (map (node_declarations (gen_syntax gen) fmt (element_document el)) ?ns)"
  let ?cs = "concat (map (node_connects (gen_syntax gen)) ?ns)"
  have d: "\<forall>l\<in>set ?ds. is_declaration l" using declarations_node by auto
  have c: "\<forall>l\<in>set ?cs. is_connect l" using connects_node by auto
  have ca: "connects_after_declarations (?ds @ ?cs)"
    by (rule connects_after_declarations_append [OF d c])
  assume a: "fst (generate_genoslnodes gen name el ctx fmt) = Inr (Some sh)"
  from generate_genoslnodes_code [OF a]
  show code: "stage_code sh = ?ds @ ?cs @ sink_lines ctx ?ns" .
  from declarations_precede_connects_append [OF d, of "?cs @ sink_lines ctx ?ns"] code
  show "declarations_precede_connects ?ds (stage_code sh)" by simp
  show "if oslNodesConnectCiWrapper ctx
          then sink_lines ctx ?ns
                 = [''shader setCi root ;'',
                    connectString (node_name (last ?ns)) (output_name (node_output0 (last ?ns)))
                      ''root'' (output_type (node_output0 (last ?ns)) @ ''_input'')]
          else sink_lines ctx ?ns = [] \<and> connects_after_declarations (stage_code sh)"
  proof (cases "oslNodesConnectCiWrapper ctx")
    case True
    with generate_genoslnodes_nonempty [OF a] show ?thesis by (simp add: sink_lines_def)
  next
    case False
    with code ca show ?thesis by (simp add: sink_lines_def)
  qed
next
  let ?ns = "graph_nodes (ShaderGraph_create gen name el ctx)"
  let ?ds = "concat (map (node_declarations_genosl (gen_syntax gen)) ?ns)"
  let ?cs = "concat (map node_connects_genosl ?ns)"
  have d: "\<forall>l\<in>set ?ds. is_declaration l" using declarations_node_genosl by auto
  have c: "\<forall>l\<in>set ?cs. is_connect l" using connects_node_genosl by auto
  assume a: "fst (generate_genosl gen name el ctx fmt) = Inr sh'"
  from generate_genosl_code [OF a] show code: "stage_code sh' = ?ds @ ?cs" .
  from declarations_precede_connects_append [OF d, of ?cs] code
  show "declarations_precede_connects ?ds (stage_code sh')" by simp
  from connects_after_declarations_append [OF d c] code
  show "connects_after_declarations (stage_code sh')" by simp
next
  show "list_all is_declaration (node_declarations (gen_syntax gen) fmt (element_document el) n)"
    using declarations_node by (simp add: list_all_iff)
  show "list_all is_connect (node_connects (gen_syntax gen) n)"
    using connects_node by (simp add: list_all_iff)
  show "list_all is_declaration (node_declarations_genosl (gen_syntax gen) n)"
    using declarations_node_genosl by (simp add: list_all_iff)
  show "list_all is_connect (node_connects_genosl n)"
    using connects_node_genosl by (simp add: list_all_iff)
qed

theorem connects_after_node_declarations_witness:
  "\<exists>sh sh'. fst (generate_genoslnodes (ex_gen [ex_nodeA, ex_nodeB]) ''g'' ex_elem (ex_context True) FloatFormatFixed)
               = Inr (Some sh)
     \<and> fst (generate_genosl (ex_gen [ex_nodeA, ex_nodeB]) ''g'' ex_elem (ex_context True) FloatFormatFixed)
               = Inr sh'
     \<and> declarations_precede_connects
          [''shader implA A ;'', ''param float in1 0.000010 ;'', ''shader implB B ;''] (stage_code sh)
     \<and> sink_lines (ex_context True) [ex_nodeA, ex_nodeB]
          = [''shader setCi root ;'', ''connect B.out root.color_input ;'']
     \<and> declarations_precede_connects
          [''shader a A ;'', ''param float in 0.000010 ;'', ''shader b B ;''] (stage_code sh')
     \<and> connects_after_declarations (stage_code sh')"
proof -
  let ?gen = "ex_gen [ex_nodeA, ex_nodeB]"
  from ex_code_AB_sink obtain sh where
    s: "fst (generate_genoslnodes ?gen ''g'' ex_elem (ex_context True) FloatFormatFixed) = Inr (Some sh)"
    by blast
  have "\<exists>sh'. fst (generate_genosl ?gen ''g'' ex_elem (ex_context True) FloatFormatFixed) = Inr sh'"
    by (simp add: ex_eval_genosl)
  then obtain sh' where
    s': "fst (generate_genosl ?gen ''g'' ex_elem (ex_context True) FloatFormatFixed) = Inr sh'"
    by blast
  note t = connects_after_node_declarations
             [of ?gen "''g''" ex_elem "ex_context True" FloatFormatFixed sh sh' ex_nodeA]
  from t s have 1: "declarations_precede_connects
      (concat (map (node_declarations (gen_syntax ?gen) FloatFormatFixed (element_document ex_elem))
                 (graph_nodes (ShaderGraph_create ?gen ''g'' ex_elem (ex_context True)))))
      (stage_code sh)"
    by blast
  from t s' have 2: "declarations_precede_connects
      (concat (map (node_declarations_genosl (gen_syntax ?gen))
                 (graph_nodes (ShaderGraph_create ?gen ''g'' ex_elem (ex_context True)))))
      (stage_code sh')"
    and 3: "connects_after_declarations (stage_code sh')"
    by blast+
  from t s have "if oslNodesConnectCiWrapper (ex_context True)
          then sink_lines (ex_context True) (graph_nodes (ShaderGraph_create ?gen ''g'' ex_elem (ex_context True)))
                 = [''shader setCi root ;'',
                    connectString (node_name (last (graph_nodes (ShaderGraph_create ?gen ''g'' ex_elem (ex_context True)))))
                      (output_name (node_output0 (last (graph_nodes (ShaderGraph_create ?gen ''g'' ex_elem (ex_context True))))))
                      ''root''
                      (output_type (node_output0 (last (graph_nodes (ShaderGraph_create ?gen ''g'' ex_elem (ex_context True)))))
                         @ ''_input'')]
          else sink_lines (ex_context True) (graph_nodes (ShaderGraph_create ?gen ''g'' ex_elem (ex_context True))) = []
               \<and> connects_after_declarations (stage_code sh)"
    by blast
  then have 4: "sink_lines (ex_context True) [ex_nodeA, ex_nodeB]
          = [''shader setCi root ;'', ''connect B.out root.color_input ;'']"
    by (simp add: connectString_def ex_nodeB_def)
  from 1 have d1: "declarations_precede_connects
          [''shader implA A ;'', ''param float in1 0.000010 ;'', ''shader implB B ;''] (stage_code sh)"
    by (simp only: ex_gen_simps ex_declarations)
  from 2 have d2: "declarations_precede_connects
          [''shader a A ;'', ''param float in 0.000010 ;'', ''shader b B ;''] (stage_code sh')"
    by (simp only: ex_gen_simps ex_declarations)
  from s s' d1 d2 3 4 show ?thesis by blast
qed

text \<open>
  C2. An input that is not marked default, has no connection to a node inside the graph
  and is not one of the two excluded names yields exactly one param line, at its place
  among the lines of its node. In the genoslnodes generator (when the value is not
  \<^verbatim>\<open>null_closure()\<close>) the line carries the sanitized name and the value printed in
  the float format the process has at the call; in the genosl generator (for an input that
  has a value) it carries the name as it is and the value printed in the fixed format.
\<close>

theorem literal_input_emits_one_param:
  assumes "graph_nodes (ShaderGraph_create gen name el ctx) = pre @ n # post"
    and "node_inputs n = ipre @ i # ipost"
    and "\<not> input_isDefault i" and "unconnected i" and "\<not> excluded_name (input_name i)"
  shows "(fst (generate_genoslnodes gen name el ctx fmt) = Inr (Some sh)
            \<and> getValue (gen_syntax gen) fmt i \<noteq> ''null_closure()'' \<longrightarrow>
          stage_code sh =
            concat (map (node_declarations (gen_syntax gen) fmt (element_document el)) pre)
            @ concat (map (input_params (gen_syntax gen) fmt) ipre)
            @ [paramString (getTypeName (gen_syntax gen) (input_type i))
                 (makeValidName (gen_syntax gen) (input_name i)) (getValue (gen_syntax gen) fmt i)]
            @ concat (map (input_params (gen_syntax gen) fmt) ipost)
            @ shader_line (element_document el) n
            @ concat (map (node_declarations (gen_syntax gen) fmt (element_document el)) post)
            @ concat (map (node_connects (gen_syntax gen)) (pre @ n # post))
            @ sink_lines ctx (pre @ n # post))
       \<and> (fst (generate_genosl gen name el ctx fmt) = Inr sh' \<and> input_value i \<noteq> None \<longrightarrow>
          stage_code sh' =
            concat (map (node_declarations_genosl (gen_syntax gen)) pre)
            @ concat (map (input_params_genosl (gen_syntax gen)) ipre)
            @ [paramString (getTypeName (gen_syntax gen) (input_type i))
                 (input_name i) (getValue (gen_syntax gen) FloatFormatFixed i)]
            @ concat (map (input_params_genosl (gen_syntax gen)) ipost)
            @ [''shader '' @ strip_ND (node_nodeDefName n) @ '' '' @ node_name n @ '' ;'']
            @ concat (map (node_declarations_genosl (gen_syntax gen)) post)
            @ concat (map node_connects_genosl (pre @ n # post)))"
proof (intro conjI impI)
  assume a: "fst (generate_genoslnodes gen name el ctx fmt) = Inr (Some sh)
             \<and> getValue (gen_syntax gen) fmt i \<noteq> ''null_closure()''"
  with assms(3-5) have p: "input_params (gen_syntax gen) fmt i =
      [paramString (getTypeName (gen_syntax gen) (input_type i))
         (makeValidName (gen_syntax gen) (input_name i)) (getValue (gen_syntax gen) fmt i)]"
    by (simp add: input_params_def)
  from a have "fst (generate_genoslnodes gen name el ctx fmt) = Inr (Some sh)" by simp
  from generate_genoslnodes_code [OF this] p assms(1,2)
  show "stage_code sh =
            concat (map (node_declarations (gen_syntax gen) fmt (element_document el)) pre)
            @ concat (map (input_params (gen_syntax gen) fmt) ipre)
            @ [paramString (getTypeName (gen_syntax gen) (input_type i))
                 (makeValidName (gen_syntax gen) (input_name i)) (getValue (gen_syntax gen) fmt i)]
            @ concat (map (input_params (gen_syntax gen) fmt) ipost)
            @ shader_line (element_document el) n
            @ concat (map (node_declarations (gen_syntax gen) fmt (element_document el)) post)
            @ concat (map (node_connects (gen_syntax gen)) (pre @ n # post))
            @ sink_lines ctx (pre @ n # post)"
    by (simp add: node_declarations_def node_params_def)
next
  assume a: "fst (generate_genosl gen name el ctx fmt) = Inr sh' \<and> input_value i \<noteq> None"
  then have g: "fst (generate_genosl gen name el ctx fmt) = Inr sh'" by simp
  from generate_genosl_no_fault [OF g] assms(1,2) have "\<not> input_faults_genosl i" by simp
  with a assms(3,4) have "\<exists>c. input_connection i = Some c \<and> is_graph (output_node c)"
    by (auto simp: input_faults_genosl_def unconnected_def split: option.splits)
  with a assms(3,5) have p: "input_params_genosl (gen_syntax gen) i =
      [paramString (getTypeName (gen_syntax gen) (input_type i))
         (input_name i) (getValue (gen_syntax gen) FloatFormatFixed i)]"
    by (auto simp: input_params_genosl_def)
  from generate_genosl_code [OF g] p assms(1,2)
  show "stage_code sh' =
            concat (map (node_declarations_genosl (gen_syntax gen)) pre)
            @ concat (map (input_params_genosl (gen_syntax gen)) ipre)
            @ [paramString (getTypeName (gen_syntax gen) (input_type i))
                 (input_name i) (getValue (gen_syntax gen) FloatFormatFixed i)]
            @ concat (map (input_params_genosl (gen_syntax gen)) ipost)
            @ [''shader '' @ strip_ND (node_nodeDefName n) @ '' '' @ node_name n @ '' ;'']
            @ concat (map (node_declarations_genosl (gen_syntax gen)) post)
            @ concat (map node_connects_genosl (pre @ n # post))"
    by (simp add: node_declarations_genosl_def)
qed

theorem literal_input_emits_one_param_witness:
  "graph_nodes (ShaderGraph_create (ex_gen [ex_nodeA, ex_nodeB]) ''g'' ex_elem (ex_context False))
     = [ex_nodeA] @ ex_nodeB # []
   \<and> node_inputs ex_nodeB = [ex_input_bg] @ ex_input_in # []
   \<and> \<not> input_isDefault ex_input_in \<and> unconnected ex_input_in \<and> \<not> excluded_name (input_name ex_input_in)
   \<and> (\<exists>sh sh'.
         fst (generate_genoslnodes (ex_gen [ex_nodeA, ex_nodeB]) ''g'' ex_elem (ex_context False) FloatFormatDefault)
           = Inr (Some sh)
       \<and> fst (generate_genosl (ex_gen [ex_nodeA, ex_nodeB]) ''g'' ex_elem (ex_context False) FloatFormatDefault)
           = Inr sh'
       \<and> stage_code sh = [''shader implA A ;'', ''param float in1 1e-05 ;'', ''shader implB B ;'',
                            ''connect A.out1 B.bg ;'']
       \<and> stage_code sh' = [''shader a A ;'', ''param float in 0.000010 ;'', ''shader b B ;'',
                            ''connect A.out B.bg ;''])"
proof -
  let ?gen = "ex_gen [ex_nodeA, ex_nodeB]"
  from ex_code_AB_default obtain sh where
    s: "fst (generate_genoslnodes ?gen ''g'' ex_elem (ex_context False) FloatFormatDefault) = Inr (Some sh)"
    by blast
  from ex_code_AB_genosl obtain sh' where
    s': "fst (generate_genosl ?gen ''g'' ex_elem (ex_context False) FloatFormatDefault) = Inr sh'"
    by blast
  have h1: "graph_nodes (ShaderGraph_create ?gen ''g'' ex_elem (ex_context False)) = [ex_nodeA] @ ex_nodeB # []"
    by simp
  have h2: "node_inputs ex_nodeB = [ex_input_bg] @ ex_input_in # []" by (simp add: ex_nodeB_def)
  have h3: "\<not> input_isDefault ex_input_in" by (simp add: ex_input_in_def)
  have h4: "unconnected ex_input_in" by (simp add: ex_input_in_def unconnected_def)
  have h5: "\<not> excluded_name (input_name ex_input_in)" by (simp add: ex_input_in_def excluded_name_def)
  have v: "getValue (gen_syntax ?gen) FloatFormatDefault ex_input_in \<noteq> ''null_closure()''"
    by (simp add: ex_syntax_def ex_input_in_def)
  have v': "input_value ex_input_in \<noteq> None" by (simp add: ex_input_in_def)
  note t = literal_input_emits_one_param [OF h1 h2 h3 h4 h5, of FloatFormatDefault sh sh']
  from t s v have c: "stage_code sh = [''shader implA A ;'', ''param float in1 1e-05 ;'', ''shader implB B ;'',
                            ''connect A.out1 B.bg ;'']"
    by (simp add: node_declarations_def node_params_def node_connects_def shader_line_def
        node_implementation_def input_params_def input_connects_def sink_lines_def unconnected_def
        excluded_name_def paramString_def connectString_def ex_lookups ex_impls
        ex_nodeA_def ex_nodeB_def ex_input_in_def ex_input_bg_def ex_syntax_def)
  from t s' v' have c': "stage_code sh' = [''shader a A ;'', ''param float in 0.000010 ;'', ''shader b B ;'',
                            ''connect A.out B.bg ;'']"
    by (simp add: node_declarations_genosl_def node_connects_genosl_def input_params_genosl_def
        input_connects_genosl_def excluded_name_def paramString_def connectString_def strip_ND_def
        ex_nodeA_def ex_nodeB_def ex_input_in_def ex_input_bg_def ex_syntax_def)
  from h1 h2 h3 h4 h5 s s' c c' show ?thesis by blast
qed

text \<open>
  The line with both the sanitized name and the fixed-format value is emitted by neither
  generator for the input \<open>in\<close> of the network: one prints \<open>1e-05\<close>, the other
  keeps the name \<open>in\<close>.
\<close>

theorem literal_input_param_counterexample:
  "\<not> input_isDefault ex_input_in \<and> unconnected ex_input_in \<and> input_value ex_input_in = Some ''0.000010''
   \<and> \<not> excluded_name (input_name ex_input_in)
   \<and> getValue ex_syntax FloatFormatFixed ex_input_in \<noteq> ''null_closure()''
   \<and> ex_input_in \<in> set (node_inputs ex_nodeB)
   \<and> paramString (getTypeName ex_syntax (input_type ex_input_in))
        (makeValidName ex_syntax (input_name ex_input_in))
        (getValue ex_syntax FloatFormatFixed ex_input_in) = ''param float in1 0.000010 ;''
   \<and> (\<exists>sh sh'.
         fst (generate_genoslnodes (ex_gen [ex_nodeA, ex_nodeB]) ''g'' ex_elem (ex_context False) FloatFormatDefault)
           = Inr (Some sh)
       \<and> fst (generate_genosl (ex_gen [ex_nodeA, ex_nodeB]) ''g'' ex_elem (ex_context False) FloatFormatDefault)
           = Inr sh'
       \<and> ''param float in1 0.000010 ;'' \<notin> set (stage_code sh)
       \<and> ''param float in1 0.000010 ;'' \<notin> set (stage_code sh'))"
proof -
  from ex_code_AB_default obtain sh where
    s: "fst (generate_genoslnodes (ex_gen [ex_nodeA, ex_nodeB]) ''g'' ex_elem (ex_context False) FloatFormatDefault)
          = Inr (Some sh)"
    and c: "stage_code sh = [''shader implA A ;'', ''param float in1 1e-05 ;'', ''shader implB B ;'',
                          ''connect A.out1 B.bg ;'']"
    by blast
  from ex_code_AB_genosl obtain sh' where
    s': "fst (generate_genosl (ex_gen [ex_nodeA, ex_nodeB]) ''g'' ex_elem (ex_context False) FloatFormatDefault)
          = Inr sh'"
    and c': "stage_code sh' = [''shader a A ;'', ''param float in 0.000010 ;'', ''shader b B ;'',
                          ''connect A.out B.bg ;'']"
    by blast
  have n: "''param float in1 0.000010 ;'' \<notin> set (stage_code sh)" by (simp add: c)
  have n': "''param float in1 0.000010 ;'' \<notin> set (stage_code sh')" by (simp add: c')
  have "\<not> input_isDefault ex_input_in \<and> unconnected ex_input_in \<and> input_value ex_input_in = Some ''0.000010''
   \<and> \<not> excluded_name (input_name ex_input_in)
   \<and> getValue ex_syntax FloatFormatFixed ex_input_in \<noteq> ''null_closure()''
   \<and> ex_input_in \<in> set (node_inputs ex_nodeB)
   \<and> paramString (getTypeName ex_syntax (input_type ex_input_in))
        (makeValidName ex_syntax (input_name ex_input_in))
        (getValue ex_syntax FloatFormatFixed ex_input_in) = ''param float in1 0.000010 ;''"
    by (simp add: ex_input_in_def unconnected_def excluded_name_def ex_syntax_def ex_nodeB_def
        paramString_def)
  with s s' n n' show ?thesis by blast
qed



text \<open>
  C4. \<^verbatim>\<open>main\<close>, from the creation of \<^verbatim>\<open>hasFailed\<close> on, returns 0 exactly when
  every definition that has an implementation for the target was instantiated and its
  \<^verbatim>\<open>try\<close> block completed. When the block throws, the handler appends the notice
  with the node's name, \<^verbatim>\<open>what()\<close> and, for an \<^verbatim>\<open>ExceptionRenderError\<close>, every
  line of \<^verbatim>\<open>errorLog()\<close> to the log, sets \<^verbatim>\<open>hasFailed\<close>, and the loop goes on
  with the next definition.
\<close>

theorem exit_zero_iff_all_clean:
  "(main_exit drv doc = Return 0 \<longleftrightarrow>
      (\<forall>nd\<in>set (getNodeDefs doc). eligible drv nd \<longrightarrow> compiles_cleanly drv doc nd))
   \<and> (eligible drv nd \<and> \<not> name_in_use drv (librariesDoc st) nd
        \<and> try_outcome drv (librariesDoc st) nd = Throws (ExceptionRenderError what errorLog) \<longrightarrow>
      main_loop drv st (nd # rest) =
        main_loop drv
          (st\<lparr>logFile := logFile st
                 @ [''Encountered a codegen/compilation related exception for the following node: ''
                      @ nodeName_of drv nd, what] @ errorLog,
              hasFailed := True\<rparr>) rest)
   \<and> (eligible drv nd \<and> \<not> name_in_use drv (librariesDoc st) nd
        \<and> try_outcome drv (librariesDoc st) nd = Throws (Exception what) \<longrightarrow>
      main_loop drv st (nd # rest) =
        main_loop drv
          (st\<lparr>logFile := logFile st
                 @ [''Failed to codegen/compile the following node to OSL: '' @ nodeName_of drv nd, what],
              hasFailed := True\<rparr>) rest)"
proof (intro conjI impI)
  let ?st0 = "\<lparr>librariesDoc = doc, logFile = [], hasFailed = False\<rparr>"
  show "main_exit drv doc = Return 0 \<longleftrightarrow>
      (\<forall>nd\<in>set (getNodeDefs doc). eligible drv nd \<longrightarrow> compiles_cleanly drv doc nd)"
  proof (cases "\<exists>nd\<in>set (getNodeDefs doc). eligible drv nd \<and> name_in_use drv doc nd")
    case True
    then have "\<exists>nd\<in>set (getNodeDefs doc). eligible drv nd \<and> name_in_use drv (librariesDoc ?st0) nd"
      by simp
    from main_loop_throw [OF this] obtain what where "main_run drv doc = Inl what"
      by (auto simp: main_run_def)
    then have "main_exit drv doc \<noteq> Return 0" by (simp add: main_exit_def main_return_def)
    with True show ?thesis by (auto simp: compiles_cleanly_def)
  next
    case False
    then have "\<forall>nd\<in>set (getNodeDefs doc). eligible drv nd \<longrightarrow> \<not> name_in_use drv (librariesDoc ?st0) nd"
      by simp
    from main_loop_no_throw [OF this]
    have "main_exit drv doc = Return 0 \<longleftrightarrow> \<not> (\<exists>nd\<in>set (getNodeDefs doc). fails drv doc nd)"
      by (simp add: main_exit_def main_run_def main_return_def)
    with False show ?thesis by (auto simp: compiles_cleanly_def fails_def)
  qed
next
  assume a: "eligible drv nd \<and> \<not> name_in_use drv (librariesDoc st) nd
        \<and> try_outcome drv (librariesDoc st) nd = Throws (ExceptionRenderError what errorLog)"
  then have "main_iteration drv st nd =
     Inr (st\<lparr>logFile := logFile st @ log_lines drv (librariesDoc st) nd,
             hasFailed := hasFailed st \<or> try_outcome drv (librariesDoc st) nd \<noteq> Completed\<rparr>)"
    by (intro main_iteration_try) simp_all
  with a show "main_loop drv st (nd # rest) =
        main_loop drv
          (st\<lparr>logFile := logFile st
                 @ [''Encountered a codegen/compilation related exception for the following node: ''
                      @ nodeName_of drv nd, what] @ errorLog,
              hasFailed := True\<rparr>) rest"
    by (simp add: log_lines_def)
next
  assume a: "eligible drv nd \<and> \<not> name_in_use drv (librariesDoc st) nd
        \<and> try_outcome drv (librariesDoc st) nd = Throws (Exception what)"
  then have "main_iteration drv st nd =
     Inr (st\<lparr>logFile := logFile st @ log_lines drv (librariesDoc st) nd,
             hasFailed := hasFailed st \<or> try_outcome drv (librariesDoc st) nd \<noteq> Completed\<rparr>)"
    by (intro main_iteration_try) simp_all
  with a show "main_loop drv st (nd # rest) =
        main_loop drv
          (st\<lparr>logFile := logFile st
                 @ [''Failed to codegen/compile the following node to OSL: '' @ nodeName_of drv nd, what],
              hasFailed := True\<rparr>) rest"
    by (simp add: log_lines_def)
qed

theorem exit_zero_iff_all_clean_witness:
  "main_exit (ex_driver []) ex_doc = Return 0
   \<and> main_exit (ex_driver [''mx_b'']) ex_doc \<noteq> Return 0
   \<and> eligible (ex_driver [''mx_b'']) ex_ndB
   \<and> \<not> name_in_use (ex_driver [''mx_b'']) (librariesDoc ex_state) ex_ndB
   \<and> try_outcome (ex_driver [''mx_b'']) (librariesDoc ex_state) ex_ndB
        = Throws (ExceptionRenderError ''Command return code: 1'' [''mx_b.osl:3: error: Unknown shader''])
   \<and> main_loop (ex_driver [''mx_b'']) ex_state [ex_ndB, ex_ndC]
        = Inr \<lparr>librariesDoc = ex_doc,
               logFile = [''Encountered a codegen/compilation related exception for the following node: mx_b'',
                          ''Command return code: 1'', ''mx_b.osl:3: error: Unknown shader'',
                          ''The following `NodeDef` does not provide a valid OSL implementation, and will be skipped: mx_c''],
               hasFailed = True\<rparr>
   \<and> eligible ex_driver_exception ex_ndA
   \<and> \<not> name_in_use ex_driver_exception (librariesDoc ex_state) ex_ndA
   \<and> try_outcome ex_driver_exception (librariesDoc ex_state) ex_ndA
        = Throws (Exception ''Could not find a matching implementation'')
   \<and> main_loop ex_driver_exception ex_state [ex_ndA]
        = Inr \<lparr>librariesDoc = ex_doc,
               logFile = [''Failed to codegen/compile the following node to OSL: a'',
                          ''Could not find a matching implementation''],
               hasFailed = True\<rparr>"
proof -
  have n2: "nodeName_of ex_driver_exception ex_ndA = ''a''"
    by (simp add: nodeName_of_def ex_driver_exception_def ex_ndA_def)
  have e2: "eligible ex_driver_exception ex_ndA"
    by (simp add: eligible_def ex_driver_exception_def ex_impls)
  have u2: "\<not> name_in_use ex_driver_exception (librariesDoc ex_state) ex_ndA"
    by (simp add: name_in_use_def n2 ex_names ex_state_def)
  have o2: "try_outcome ex_driver_exception (librariesDoc ex_state) ex_ndA
        = Throws (Exception ''Could not find a matching implementation'')"
    by (simp add: try_outcome_def n2) (simp add: ex_driver_exception_def)
  note t2 = exit_zero_iff_all_clean
    [of ex_driver_exception ex_doc ex_ndA ex_state "''Could not find a matching implementation''" _ "[]"]
  from t2 e2 u2 o2 have "main_loop ex_driver_exception ex_state [ex_ndA] =
        main_loop ex_driver_exception
          (ex_state\<lparr>logFile := logFile ex_state
                 @ [''Failed to codegen/compile the following node to OSL: '' @ nodeName_of ex_driver_exception ex_ndA,
                    ''Could not find a matching implementation''],
              hasFailed := True\<rparr>) []"
    by blast
  then have l2: "main_loop ex_driver_exception ex_state [ex_ndA]
        = Inr \<lparr>librariesDoc = ex_doc,
               logFile = [''Failed to codegen/compile the following node to OSL: a'',
                          ''Could not find a matching implementation''],
               hasFailed = True\<rparr>"
    by (simp add: n2 ex_state_def)
  note t0 = exit_zero_iff_all_clean [of "ex_driver []" ex_doc]
  note t1 = exit_zero_iff_all_clean
    [of "ex_driver [''mx_b'']" ex_doc ex_ndB ex_state "''Command return code: 1''"
        "[''mx_b.osl:3: error: Unknown shader'']" "[ex_ndC]"]
  have c0: "\<forall>nd\<in>set (getNodeDefs ex_doc). eligible (ex_driver []) nd \<longrightarrow> compiles_cleanly (ex_driver []) ex_doc nd"
    by (simp add: ex_lookups eligible_def compiles_cleanly_def name_in_use_def ex_names ex_impls ex_outcomes)
  with t0 have e0: "main_exit (ex_driver []) ex_doc = Return 0" by blast
  have e: "eligible (ex_driver [''mx_b'']) ex_ndB" by (simp add: eligible_def ex_names ex_impls)
  have u: "\<not> name_in_use (ex_driver [''mx_b'']) (librariesDoc ex_state) ex_ndB"
    by (simp add: name_in_use_def ex_names ex_state_def)
  have o: "try_outcome (ex_driver [''mx_b'']) (librariesDoc ex_state) ex_ndB
        = Throws (ExceptionRenderError ''Command return code: 1'' [''mx_b.osl:3: error: Unknown shader''])"
    by (simp add: ex_outcomes ex_names)
  have "\<not> compiles_cleanly (ex_driver [''mx_b'']) ex_doc ex_ndB"
    by (simp add: compiles_cleanly_def ex_outcomes ex_names)
  with e have "\<not> (\<forall>nd\<in>set (getNodeDefs ex_doc). eligible (ex_driver [''mx_b'']) nd
          \<longrightarrow> compiles_cleanly (ex_driver [''mx_b'']) ex_doc nd)"
    by (auto simp: ex_lookups)
  with t1 have e1: "main_exit (ex_driver [''mx_b'']) ex_doc \<noteq> Return 0" by blast
  from t1 e u o have "main_loop (ex_driver [''mx_b'']) ex_state [ex_ndB, ex_ndC] =
        main_loop (ex_driver [''mx_b''])
          (ex_state\<lparr>logFile := logFile ex_state
                 @ [''Encountered a codegen/compilation related exception for the following node: ''
                      @ nodeName_of (ex_driver [''mx_b'']) ex_ndB, ''Command return code: 1'']
                 @ [''mx_b.osl:3: error: Unknown shader''],
              hasFailed := True\<rparr>) [ex_ndC]"
    by blast
  then have l: "main_loop (ex_driver [''mx_b'']) ex_state [ex_ndB, ex_ndC]
        = Inr \<lparr>librariesDoc = ex_doc,
               logFile = [''Encountered a codegen/compilation related exception for the following node: mx_b'',
                          ''Command return code: 1'', ''mx_b.osl:3: error: Unknown shader'',
                          ''The following `NodeDef` does not provide a valid OSL implementation, and will be skipped: mx_c''],
               hasFailed = True\<rparr>"
    by (simp add: ex_state_def ex_names main_iteration_def ex_impls Let_def)
  from e0 e1 e u o l e2 u2 o2 l2 show ?thesis by blast
qed

text \<open>
  C5. A definition with no implementation for the driver's target: the iteration appends
  the skip notice to the log and changes nothing else, the loop goes on with the next
  definition, and the value \<^verbatim>\<open>main\<close> returns is the one it returns with that
  definition left out of the list.
\<close>

theorem unsupported_definition_skipped:
  assumes "getImplementation nd (getTarget drv) = None"
  shows "main_iteration drv st nd =
           Inr (st\<lparr>logFile := logFile st
                  @ [''The following `NodeDef` does not provide a valid OSL implementation, and will be skipped: ''
                       @ nodeName_of drv nd]\<rparr>)
         \<and> main_loop drv st (nd # post) =
             main_loop drv
               (st\<lparr>logFile := logFile st
                  @ [''The following `NodeDef` does not provide a valid OSL implementation, and will be skipped: ''
                       @ nodeName_of drv nd]\<rparr>) post
         \<and> main_return (main_loop drv st (pre @ nd # post)) = main_return (main_loop drv st (pre @ post))"
proof -
  from assms have n: "\<not> eligible drv nd" by (simp add: eligible_def)
  have i: "\<And>s. main_iteration drv s nd =
           Inr (s\<lparr>logFile := logFile s
                  @ [''The following `NodeDef` does not provide a valid OSL implementation, and will be skipped: ''
                       @ nodeName_of drv nd]\<rparr>)"
    using main_iteration_skip [OF n] by (simp add: skip_notice_def)
  have "main_return (main_loop drv st (pre @ nd # post)) = main_return (main_loop drv st (pre @ post))"
  proof (cases "main_loop drv st pre")
    case (Inl what)
    then show ?thesis by (simp add: main_loop_append)
  next
    case (Inr st1)
    have "main_return (main_loop drv
            (st1\<lparr>logFile := logFile st1
               @ [''The following `NodeDef` does not provide a valid OSL implementation, and will be skipped: ''
                    @ nodeName_of drv nd]\<rparr>) post)
          = main_return (main_loop drv st1 post)"
      by (rule main_return_loop_cong) simp_all
    with Inr i [of st1] show ?thesis by (simp add: main_loop_append)
  qed
  with i [of st] show ?thesis by simp
qed

theorem unsupported_definition_skipped_witness:
  "getImplementation ex_ndC (getTarget (ex_driver [])) = None
   \<and> main_iteration (ex_driver []) ex_state ex_ndC
       = Inr \<lparr>librariesDoc = ex_doc,
              logFile = [''The following `NodeDef` does not provide a valid OSL implementation, and will be skipped: mx_c''],
              hasFailed = False\<rparr>
   \<and> main_return (main_loop (ex_driver []) ex_state ([ex_ndA, ex_ndB] @ ex_ndC # [ex_ndG])) = Return 0
   \<and> main_return (main_loop (ex_driver []) ex_state ([ex_ndA, ex_ndB] @ [ex_ndG])) = Return 0"
proof -
  have h: "getImplementation ex_ndC (getTarget (ex_driver [])) = None"
    by (simp add: ex_names ex_impls)
  note t = unsupported_definition_skipped [OF h, of ex_state "[ex_ndG]" "[ex_ndA, ex_ndB]"]
  from t have i: "main_iteration (ex_driver []) ex_state ex_ndC
       = Inr \<lparr>librariesDoc = ex_doc,
              logFile = [''The following `NodeDef` does not provide a valid OSL implementation, and will be skipped: mx_c''],
              hasFailed = False\<rparr>"
    by (simp add: ex_state_def ex_names)
  have "main_exit (ex_driver []) ex_doc = Return 0"
    by (simp add: main_exit_def main_run_def main_return_def ex_lookups main_iteration_def ex_names ex_impls
        Let_def addNodeInstance_def removeChild_def catch_handlers_def ex_driver_def ex_doc_def
        nodeName_of_def ex_ndA_def ex_ndB_def ex_ndC_def ex_ndG_def getImplementation_def)
  then have w: "main_return (main_loop (ex_driver []) ex_state ([ex_ndA, ex_ndB] @ ex_ndC # [ex_ndG])) = Return 0"
    by (simp add: main_exit_def main_run_def ex_lookups ex_state_def)
  with t have "main_return (main_loop (ex_driver []) ex_state ([ex_ndA, ex_ndB] @ [ex_ndG])) = Return 0"
    by simp
  with h i w show ?thesis by blast
qed

text \<open>
  C6. The \<^verbatim>\<open>osoPath\<close> attribute of a generated shader is the comma-separated join
  of the resolved paths of the set of implementation files the graph's nodes require, taken
  in increasing order, each file once (so the resolved entries are distinct wherever
  \<^verbatim>\<open>resolveSourceFile\<close> maps distinct files apart); two graphs with the same nodes in
  any order get the same attribute.
\<close>

theorem osoPath_attribute_sorted_set:
  assumes "fst (generate_genoslnodes gen name el ctx fmt) = Inr (Some sh)"
    and "fst (generate_genoslnodes gen' name' el ctx fmt') = Inr (Some sh')"
    and "set (graph_nodes (ShaderGraph_create gen' name' el ctx)) = set (graph_nodes (ShaderGraph_create gen name el ctx))"
  shows "map_of (shader_attributes sh) ''osoPath'' =
           Some (comma_joined (map (\<lambda>p. resolveSourceFile ctx p [])
                   (sorted_list_of_set (required_files (element_document el)
                      (graph_nodes (ShaderGraph_create gen name el ctx))))))
         \<and> sorted (sorted_list_of_set (required_files (element_document el)
                      (graph_nodes (ShaderGraph_create gen name el ctx))))
         \<and> distinct (sorted_list_of_set (required_files (element_document el)
                      (graph_nodes (ShaderGraph_create gen name el ctx))))
         \<and> set (sorted_list_of_set (required_files (element_document el)
                      (graph_nodes (ShaderGraph_create gen name el ctx))))
             = required_files (element_document el) (graph_nodes (ShaderGraph_create gen name el ctx))
         \<and> (inj_on (\<lambda>p. resolveSourceFile ctx p [])
               (required_files (element_document el) (graph_nodes (ShaderGraph_create gen name el ctx)))
             \<longrightarrow> distinct (map (\<lambda>p. resolveSourceFile ctx p [])
                   (sorted_list_of_set (required_files (element_document el)
                      (graph_nodes (ShaderGraph_create gen name el ctx))))))
         \<and> shader_attributes sh' = shader_attributes sh"
proof -
  have f: "finite (required_files (element_document el) (graph_nodes (ShaderGraph_create gen name el ctx)))"
    by (simp add: required_files_def)
  from generate_genoslnodes_osoPath [OF assms(1)] generate_genoslnodes_osoPath [OF assms(2)]
    required_files_set [OF assms(3), of "element_document el"] f
  show ?thesis by (simp add: distinct_map)
qed

theorem osoPath_attribute_sorted_set_witness:
  "\<exists>sh sh'.
     fst (generate_genoslnodes (ex_gen [ex_nodeA, ex_nodeB, ex_nodeA2]) ''g'' ex_elem (ex_context False) FloatFormatFixed)
       = Inr (Some sh)
   \<and> fst (generate_genoslnodes (ex_gen [ex_nodeA2, ex_nodeB, ex_nodeA]) ''h'' ex_elem (ex_context False) FloatFormatDefault)
       = Inr (Some sh')
   \<and> set (graph_nodes (ShaderGraph_create (ex_gen [ex_nodeA2, ex_nodeB, ex_nodeA]) ''h'' ex_elem (ex_context False)))
       = set (graph_nodes (ShaderGraph_create (ex_gen [ex_nodeA, ex_nodeB, ex_nodeA2]) ''g'' ex_elem (ex_context False)))
   \<and> inj_on (\<lambda>p. resolveSourceFile (ex_context False) p [])
         (required_files (element_document ex_elem)
            (graph_nodes (ShaderGraph_create (ex_gen [ex_nodeA, ex_nodeB, ex_nodeA2]) ''g'' ex_elem (ex_context False))))
   \<and> distinct (map (\<lambda>p. resolveSourceFile (ex_context False) p [])
         (sorted_list_of_set (required_files (element_document ex_elem)
            (graph_nodes (ShaderGraph_create (ex_gen [ex_nodeA, ex_nodeB, ex_nodeA2]) ''g'' ex_elem (ex_context False))))))
   \<and> map_of (shader_attributes sh) ''osoPath'' = Some ''/mtlx/lib/b.osl,/mtlx/lib/z.osl''
   \<and> shader_attributes sh' = shader_attributes sh"
proof -
  have i: "inj_on (\<lambda>p. resolveSourceFile (ex_context False) p [])
     (required_files (element_document ex_elem)
        (graph_nodes (ShaderGraph_create (ex_gen [ex_nodeA, ex_nodeB, ex_nodeA2]) ''g'' ex_elem (ex_context False))))"
    by (simp add: ex_context_def inj_on_def)
  let ?g = "ex_gen [ex_nodeA, ex_nodeB, ex_nodeA2]" and ?g' = "ex_gen [ex_nodeA2, ex_nodeB, ex_nodeA]"
  from ex_code_ABA2 obtain sh where
    s: "fst (generate_genoslnodes ?g ''g'' ex_elem (ex_context False) FloatFormatFixed) = Inr (Some sh)"
    by blast
  from ex_code_A2BA obtain sh' where
    s': "fst (generate_genoslnodes ?g' ''h'' ex_elem (ex_context False) FloatFormatDefault) = Inr (Some sh')"
    by blast
  have p: "set (graph_nodes (ShaderGraph_create ?g' ''h'' ex_elem (ex_context False)))
       = set (graph_nodes (ShaderGraph_create ?g ''g'' ex_elem (ex_context False)))"
    by auto
  have r: "sorted_list_of_set (required_files ex_doc [ex_nodeA, ex_nodeB, ex_nodeA2]) = [''lib/b.osl'', ''lib/z.osl'']"
    unfolding required_files_def foldl_set_insert_sorted_list [symmetric]
    by (simp add: node_files_def node_implementation_def ex_lookups ex_impls
        ex_nodeA_def ex_nodeB_def ex_nodeA2_def)
  note t = osoPath_attribute_sorted_set [OF s s' p]
  from t i have d: "distinct (map (\<lambda>p. resolveSourceFile (ex_context False) p [])
         (sorted_list_of_set (required_files (element_document ex_elem)
            (graph_nodes (ShaderGraph_create (ex_gen [ex_nodeA, ex_nodeB, ex_nodeA2]) ''g'' ex_elem (ex_context False))))))"
    by blast
  from t r
  have "map_of (shader_attributes sh) ''osoPath'' = Some ''/mtlx/lib/b.osl,/mtlx/lib/z.osl''
        \<and> shader_attributes sh' = shader_attributes sh"
    by (simp add: comma_joined_def ex_context_def)
  with s s' p i d show ?thesis by blast
qed

text \<open>
  C7. \<^verbatim>\<open>createShader\<close> adds to the uniform block, after what
  \<^verbatim>\<open>createVariables\<close> put there, exactly the graph's input sockets that have a
  connection and are editable, in order; it adds every output socket of the graph to the
  output block.
\<close>

theorem createShader_published_interface:
  "block_variables (stage_uniforms (createShader gen name el ctx)) =
     fst (createVariables gen (ShaderGraph_create gen name el ctx) ctx)
     @ filter (\<lambda>s. socket_connections s \<noteq> [] \<and> graph_isEditable (ShaderGraph_create gen name el ctx) s)
         (graph_inputSockets (ShaderGraph_create gen name el ctx))
   \<and> block_variables (stage_outputs (createShader gen name el ctx)) =
     snd (snd (createVariables gen (ShaderGraph_create gen name el ctx) ctx))
     @ graph_outputSockets (ShaderGraph_create gen name el ctx)"
  by (simp add: createShader_def Let_def add_uniforms_eq add_outputs_eq)

theorem createShader_published_interface_witness:
  "block_variables (stage_uniforms (createShader (ex_gen []) ''g'' ex_elem (ex_context False)))
     = [ex_socket ''in'' [(''B'', ''in'')]]
   \<and> block_variables (stage_outputs (createShader (ex_gen []) ''g'' ex_elem (ex_context False)))
     = [ex_socket ''out'' [], ex_socket ''out2'' [(''B'', ''out'')]]"
  using createShader_published_interface [of "ex_gen []" "''g''" ex_elem "ex_context False"]
  by (simp add: ex_gen_def ex_graph_def ex_socket_def)

text \<open>
  C8. An iteration that returns to the loop leaves the library document as it found it,
  whether the \<^verbatim>\<open>try\<close> block completed or threw: the instance added before the
  block is removed after the handlers. So the document at the start of every iteration,
  and after the last, is the document the loop started with.
\<close>

theorem instance_removed_every_iteration:
  "(main_iteration drv st nd = Inr st' \<longrightarrow> librariesDoc st' = librariesDoc st)
   \<and> (main_loop drv st (pre @ nd # post) = Inr st_end \<longrightarrow>
        (\<exists>st_k. main_loop drv st pre = Inr st_k \<and> librariesDoc st_k = librariesDoc st)
        \<and> librariesDoc st_end = librariesDoc st)
   \<and> (eligible drv nd \<and> \<not> name_in_use drv (librariesDoc st) nd \<longrightarrow>
        (\<exists>st'. main_iteration drv st nd = Inr st' \<and> librariesDoc st' = librariesDoc st
           \<and> (hasFailed st' \<longleftrightarrow> hasFailed st \<or> try_outcome drv (librariesDoc st) nd \<noteq> Completed)))"
proof (intro conjI impI)
  assume "main_iteration drv st nd = Inr st'"
  then show "librariesDoc st' = librariesDoc st" by (rule main_iteration_doc)
next
  assume a: "main_loop drv st (pre @ nd # post) = Inr st_end"
  then obtain st_k where k: "main_loop drv st pre = Inr st_k"
    by (auto simp: main_loop_append split: sum.splits)
  from main_loop_doc [OF k] k
  show "\<exists>st_k. main_loop drv st pre = Inr st_k \<and> librariesDoc st_k = librariesDoc st" by blast
next
  assume "main_loop drv st (pre @ nd # post) = Inr st_end"
  then show "librariesDoc st_end = librariesDoc st" by (rule main_loop_doc)
next
  assume "eligible drv nd \<and> \<not> name_in_use drv (librariesDoc st) nd"
  then have "main_iteration drv st nd =
     Inr (st\<lparr>logFile := logFile st @ log_lines drv (librariesDoc st) nd,
             hasFailed := hasFailed st \<or> try_outcome drv (librariesDoc st) nd \<noteq> Completed\<rparr>)"
    by (intro main_iteration_try) simp_all
  then show "\<exists>st'. main_iteration drv st nd = Inr st' \<and> librariesDoc st' = librariesDoc st
           \<and> (hasFailed st' \<longleftrightarrow> hasFailed st \<or> try_outcome drv (librariesDoc st) nd \<noteq> Completed)"
    by simp
qed

theorem instance_removed_every_iteration_witness:
  "eligible (ex_driver [''mx_b'']) ex_ndB
   \<and> \<not> name_in_use (ex_driver [''mx_b'']) (librariesDoc ex_state) ex_ndB
   \<and> try_outcome (ex_driver [''mx_b'']) (librariesDoc ex_state) ex_ndB \<noteq> Completed
   \<and> (\<exists>st'. main_iteration (ex_driver [''mx_b'']) ex_state ex_ndB = Inr st'
          \<and> librariesDoc st' = ex_doc \<and> hasFailed st')
   \<and> (\<exists>st_end st_k. main_loop (ex_driver [''mx_b'']) ex_state ([ex_ndA, ex_ndB] @ ex_ndC # [ex_ndG]) = Inr st_end
          \<and> main_loop (ex_driver [''mx_b'']) ex_state [ex_ndA, ex_ndB] = Inr st_k
          \<and> librariesDoc st_k = ex_doc \<and> librariesDoc st_end = ex_doc)"
proof -
  let ?drv = "ex_driver [''mx_b'']"
  have e: "eligible ?drv ex_ndB" by (simp add: eligible_def ex_names ex_impls)
  have u: "\<not> name_in_use ?drv (librariesDoc ex_state) ex_ndB"
    by (simp add: name_in_use_def ex_names ex_state_def)
  have o: "try_outcome ?drv (librariesDoc ex_state) ex_ndB \<noteq> Completed"
    by (simp add: ex_outcomes ex_names)
  have d: "librariesDoc ex_state = ex_doc" by (simp add: ex_state_def)
  have "\<forall>nd\<in>set ([ex_ndA, ex_ndB] @ ex_ndC # [ex_ndG]).
          eligible ?drv nd \<longrightarrow> \<not> name_in_use ?drv (librariesDoc ex_state) nd"
    by (simp add: name_in_use_def ex_names ex_state_def)
  from main_loop_no_throw [OF this]
  have "\<exists>st_end. main_loop ?drv ex_state ([ex_ndA, ex_ndB] @ ex_ndC # [ex_ndG]) = Inr st_end"
    by blast
  then obtain st_end where l: "main_loop ?drv ex_state ([ex_ndA, ex_ndB] @ ex_ndC # [ex_ndG]) = Inr st_end"
    by blast
  note t = instance_removed_every_iteration [of ?drv ex_state ex_ndB _ "[ex_ndA, ex_ndB]" _ st_end]
  from t e u o d have 1: "\<exists>st'. main_iteration ?drv ex_state ex_ndB = Inr st'
          \<and> librariesDoc st' = ex_doc \<and> hasFailed st'"
    by (simp add: ex_state_def)
  note t2 = instance_removed_every_iteration [of ?drv ex_state ex_ndC _ "[ex_ndA, ex_ndB]" "[ex_ndG]" st_end]
  from t2 l d have 2: "\<exists>st_k. main_loop ?drv ex_state [ex_ndA, ex_ndB] = Inr st_k
          \<and> librariesDoc st_k = ex_doc \<and> librariesDoc st_end = ex_doc"
    by auto
  from e u o 1 2 l show ?thesis by blast
qed

text \<open>
  C10. When \<^verbatim>\<open>oslNodesConnectCiWrapper\<close> is set, \<^verbatim>\<open>generate\<close> (genoslnodes)
  reads \<^verbatim>\<open>lastOutput\<close>, which only the node loop assigns: the read hits the unassigned
  pointer exactly when the graph has no node.
\<close>

theorem sink_reads_unassigned_iff_no_node:
  assumes "oslNodesConnectCiWrapper ctx"
  shows "fst (generate_genoslnodes gen name el ctx fmt) = Inl UninitializedRead
         \<longleftrightarrow> graph_nodes (ShaderGraph_create gen name el ctx) = []"
proof
  assume l: "fst (generate_genoslnodes gen name el ctx fmt) = Inl UninitializedRead"
  show "graph_nodes (ShaderGraph_create gen name el ctx) = []"
  proof (rule ccontr)
    assume ne: "graph_nodes (ShaderGraph_create gen name el ctx) \<noteq> []"
    let ?v = "visit_nodes (gen_syntax gen) fmt (element_document el) init_state
                (graph_nodes (ShaderGraph_create gen name el ctx))"
    show False
    proof (cases ?v)
      case (Inl f)
      with l have "f = UninitializedRead"
        by (simp add: generate_genoslnodes_def Let_def init_state_def)
      with Inl visit_nodes_no_uninit show False by blast
    next
      case (Inr r)
      show False
      proof (cases r)
        case None
        with Inr l show False
          by (simp add: generate_genoslnodes_def Let_def init_state_def)
      next
        case (Some st1)
        with Inr have v: "?v = Inr (Some st1)" by simp
        from visit_nodes_last [OF v ne] have "gs_lastOutput st1 \<noteq> None" by simp
        with v l show False
          by (auto simp: generate_genoslnodes_def Let_def init_state_def connectCiWrapper_def
              foldl_emitLine split: option.splits if_splits)
      qed
    qed
  qed
next
  assume "graph_nodes (ShaderGraph_create gen name el ctx) = []"
  with assms show "fst (generate_genoslnodes gen name el ctx fmt) = Inl UninitializedRead"
    by (simp add: generate_genoslnodes_def Let_def connectCiWrapper_def)
qed

theorem sink_reads_unassigned_witness:
  "oslNodesConnectCiWrapper (ex_context True)
   \<and> graph_nodes (ShaderGraph_create (ex_gen []) ''g'' ex_elem (ex_context True)) = []
   \<and> fst (generate_genoslnodes (ex_gen []) ''g'' ex_elem (ex_context True) FloatFormatDefault)
       = Inl UninitializedRead"
proof -
  have h: "oslNodesConnectCiWrapper (ex_context True)" by (simp add: ex_context_def)
  have e: "graph_nodes (ShaderGraph_create (ex_gen []) ''g'' ex_elem (ex_context True)) = []"
    by (simp add: ex_gen_def ex_graph_def)
  from sink_reads_unassigned_iff_no_node [OF h, of "ex_gen []" "''g''" ex_elem FloatFormatDefault] e h
  show ?thesis by simp
qed


end
